theory Spec2Isabelle
  imports Complex_Main "HOL-Library.Multiset"
begin

section \<open>The resource manager of the Mesos framework SDK\<close>

text \<open>
  A shallow embedding of \<^verbatim>\<open>DefaultResourceManager\<close> (package \<^verbatim>\<open>manager\<close>): the
  offer pool, the per-task filter and strategy registries, and the first-fit
  assignment of an offer to a task.

  The quantities are \<^verbatim>\<open>float64\<close> in the code. Here their type is a parameter
  \<open>'f\<close> that has a subtraction, a zero and a comparison and obeys no law: the code
  only subtracts two quantities, compares a difference with zero and tests a quantity for
  being zero, and \<open>x - y\<close> stands for the difference as \<^verbatim>\<open>float64\<close> computes it,
  rounded. What is proved for every such type holds of \<^verbatim>\<open>float64\<close> (its two zeros
  taken as one value, as its comparisons take them). The concrete scenarios are evaluated
  on real numbers, with small whole quantities, on which the subtractions of
  \<^verbatim>\<open>float64\<close> are exact. Strings are byte lists.
\<close>

subsection \<open>Data declared outside the source files\<close>

text \<open>
  Modelled from the spec: the generated protobuf package \<^verbatim>\<open>mesos_v1\<close> is not among
  the source files. An offer carries resource line items (named scalar amounts for
  \<^verbatim>\<open>cpus\<close>/\<^verbatim>\<open>mem\<close>, a disk descriptor), typed attributes and an opaque
  identity; a task carries its name and its resource demands. The protobuf getters
  return the zero value for an absent field.
\<close>

datatype Value_Type = SCALAR | RANGES | SET | TEXT

type_synonym Resource_DiskInfo = string

record 'f Resource =
  ResName :: string
  ResScalar :: "'f option"
  ResDisk :: "Resource_DiskInfo option"

record 'f Attribute =
  AttrType :: Value_Type
  AttrScalar :: "'f option"
  AttrText :: "string option"

record 'f Offer =
  OfferId :: string
  OfferResources :: "'f Resource list"
  OfferAttributes :: "'f Attribute list"

record 'f TaskInfo =
  TaskName :: string
  TaskResources :: "'f Resource list"

definition GetScalarValue :: "'f::{minus,zero,ord} Resource \<Rightarrow> 'f" where
  "GetScalarValue r = (case ResScalar r of None \<Rightarrow> 0 | Some v \<Rightarrow> v)"

definition GetTextValue :: "'f Attribute \<Rightarrow> string" where
  "GetTextValue a = (case AttrText a of None \<Rightarrow> [] | Some s \<Rightarrow> s)"

text \<open>
  Modelled from the spec: \<^verbatim>\<open>task.Filter\<close> is declared outside the source files;
  a filter is a kind and a sequence of strings.
\<close>

record Filter =
  Type :: string
  Value :: "string list"

text \<open>
  The standard library's \<^verbatim>\<open>strings.ToLower\<close> and \<^verbatim>\<open>strings.EqualFold\<close>
  as they act on ASCII text: the letters A to Z are lowered and every other byte is kept.
  Outside ASCII the library lowers further letters. No proof of a general property below
  looks into which letters are lowered, except on the code's own words \<^verbatim>\<open>non-mux\<close>
  and \<^verbatim>\<open>mux\<close>, and the concrete scenarios are ASCII text.
\<close>

definition lower_char :: "char \<Rightarrow> char" where
  "lower_char c =
     (case map_of (zip ''ABCDEFGHIJKLMNOPQRSTUVWXYZ'' ''abcdefghijklmnopqrstuvwxyz'') c of
        None \<Rightarrow> c
      | Some l \<Rightarrow> l)"

definition ToLower :: "string \<Rightarrow> string" where
  "ToLower s = map lower_char s"

definition EqualFold :: "string \<Rightarrow> string \<Rightarrow> bool" where
  "EqualFold s t = (ToLower s = ToLower t)"

subsection \<open>The manager's state\<close>

record 'f MesosOfferResources =
  Offer :: "'f Offer"
  Cpu :: 'f
  Mem :: 'f
  Disk :: "Resource_DiskInfo option"
  Accepted :: bool

text \<open>
  Modelled from the spec: \<^verbatim>\<open>structures.DistributedMap\<close> is declared outside the
  source files; it is a key/value store with get, set and delete, where get of an
  absent key yields nil. Both registries are keyed by the task's name.

  The pool is a slice of pointers, each to a record allocated by \<^verbatim>\<open>AddOffers\<close>
  and held once, so a list of records carries the same information.
\<close>

record 'f DefaultResourceManager =
  offers :: "'f MesosOfferResources list"
  filterOn :: "string \<rightharpoonup> Filter list"
  strategy :: "string \<rightharpoonup> string"

text \<open>A Go error value, or a run-time panic (index out of range).\<close>

datatype failure = Err string | Panic

definition NewDefaultResourceManager :: "'f DefaultResourceManager" where
  "NewDefaultResourceManager = \<lparr>offers = [], filterOn = Map.empty, strategy = Map.empty\<rparr>"

subsection \<open>Offer intake\<close>

definition clearOffers :: "'f DefaultResourceManager \<Rightarrow> 'f DefaultResourceManager" where
  "clearOffers d = d\<lparr>offers := []\<rparr>"

text \<open>The inner loop of \<^verbatim>\<open>AddOffers\<close>: a later line item overrides an earlier one.\<close>

fun project ::
  "'f::{minus,zero,ord} Resource list \<Rightarrow> 'f MesosOfferResources \<Rightarrow> 'f MesosOfferResources"
where
  "project [] m = m"
| "project (resource # rs) m =
     (if ResName resource = ''cpus'' then project rs (m\<lparr>Cpu := GetScalarValue resource\<rparr>)
      else if ResName resource = ''mem'' then project rs (m\<lparr>Mem := GetScalarValue resource\<rparr>)
      else if ResName resource = ''disk'' then project rs (m\<lparr>Disk := ResDisk resource\<rparr>)
      else project rs m)"

definition mesosOffer :: "'f::{minus,zero,ord} Offer \<Rightarrow> 'f MesosOfferResources" where
  "mesosOffer offer =
     (project (OfferResources offer)
        \<lparr>Offer = offer, Cpu = 0, Mem = 0, Disk = None, Accepted = False\<rparr>)
     \<lparr>Offer := offer\<rparr>"

fun appendOffers ::
  "'f::{minus,zero,ord} DefaultResourceManager \<Rightarrow> 'f Offer list \<Rightarrow> 'f DefaultResourceManager"
where
  "appendOffers d [] = d"
| "appendOffers d (offer # rest) =
     appendOffers (d\<lparr>offers := offers d @ [mesosOffer offer]\<rparr>) rest"

definition AddOffers ::
  "'f::{minus,zero,ord} DefaultResourceManager \<Rightarrow> 'f Offer list \<Rightarrow> 'f DefaultResourceManager"
where
  "AddOffers d batch = appendOffers (clearOffers d) batch"

definition HasResources :: "'f DefaultResourceManager \<Rightarrow> bool" where
  "HasResources d = (length (offers d) > 0)"

subsection \<open>The constraint registry\<close>

definition invalid_filter :: "string \<Rightarrow> string" where
  "invalid_filter ty =
     ''Invalid filter passed in: '' @ ty @
     ''. Allowed filters are SCALAR, TEXT, SET, RANGES, and STRATEGY.''"

fun AddFilter ::
  "'f DefaultResourceManager \<Rightarrow> 'f TaskInfo \<Rightarrow> Filter list \<Rightarrow> failure option \<times> 'f DefaultResourceManager"
where
  "AddFilter d t [] = (None, d)"
| "AddFilter d t (f # fs) =
     (let kind = ToLower (Type f) in
      if kind = ''ranges'' \<or> kind = ''set'' \<or> kind = ''text'' \<or> kind = ''scalar'' then
        (case filterOn d (TaskName t) of
           None \<Rightarrow>
             AddFilter
               (d\<lparr>filterOn := (filterOn d)(TaskName t \<mapsto> [\<lparr>Type = Type f, Value = Value f\<rparr>])\<rparr>)
               t fs
         | Some list \<Rightarrow>
             AddFilter
               (d\<lparr>filterOn :=
                    (filterOn d)(TaskName t \<mapsto> list @ [\<lparr>Type = Type f, Value = Value f\<rparr>])\<rparr>)
               t fs)
      else if kind = ''strategy'' then
        (case Value f of
           [] \<Rightarrow> (Some Panic, d)
         | v # _ \<Rightarrow> AddFilter (d\<lparr>strategy := (strategy d)(TaskName t \<mapsto> v)\<rparr>) t fs)
      else (Some (Err (invalid_filter (Type f))), d))"

definition ClearFilters :: "'f DefaultResourceManager \<Rightarrow> 'f TaskInfo \<Rightarrow> 'f DefaultResourceManager" where
  "ClearFilters d t =
     d\<lparr>filterOn := (filterOn d)(TaskName t := None),
       strategy := (strategy d)(TaskName t := None)\<rparr>"

subsection \<open>Removal from the pool\<close>

text \<open>
  The swap is a tuple assignment: both right-hand sides are read first. An index outside
  the slice panics, and so does any index on an empty slice.
\<close>

definition popOffer :: "nat \<Rightarrow> 'f DefaultResourceManager \<Rightarrow> 'f DefaultResourceManager option" where
  "popOffer i d =
     (let n = length (offers d) in
      if n = 0 \<or> n \<le> i then None
      else Some (d\<lparr>offers :=
                    butlast ((offers d)[n - 1 := offers d ! i, i := offers d ! (n - 1)])\<rparr>))"

subsection \<open>Filter evaluation\<close>

fun filterOnAttrText :: "string list \<Rightarrow> 'f Attribute \<Rightarrow> bool" where
  "filterOnAttrText [] a = False"
| "filterOnAttrText (term # rest) a =
     (if ToLower term = ToLower (GetTextValue a) then True else False)"

fun filter_attrs :: "Filter \<Rightarrow> 'f Attribute list \<Rightarrow> bool" where
  "filter_attrs flt [] = False"
| "filter_attrs flt (attr # rest) =
     (case AttrType attr of
        SCALAR \<Rightarrow> filter_attrs flt rest
      | TEXT \<Rightarrow> (if filterOnAttrText (Value flt) attr then True else filter_attrs flt rest)
      | SET \<Rightarrow> filter_attrs flt rest
      | RANGES \<Rightarrow> filter_attrs flt rest)"

fun filter_offer :: "Filter list \<Rightarrow> 'f Offer \<Rightarrow> bool" where
  "filter_offer [] offer = False"
| "filter_offer (flt # fs) offer =
     (if filter_attrs flt (OfferAttributes offer) then True else filter_offer fs offer)"

subsection \<open>Allocation\<close>

definition allocateMemResource ::
  "'f::{minus,zero,ord} \<Rightarrow> 'f MesosOfferResources \<Rightarrow> bool \<times> 'f MesosOfferResources"
where
  "allocateMemResource mem offer =
     (if Mem offer - mem \<ge> 0 then (True, offer\<lparr>Mem := Mem offer - mem\<rparr>) else (False, offer))"

definition allocateCpuResource ::
  "'f::{minus,zero,ord} \<Rightarrow> 'f MesosOfferResources \<Rightarrow> bool \<times> 'f MesosOfferResources"
where
  "allocateCpuResource cpu offer =
     (if Cpu offer - cpu \<ge> 0 then (True, offer\<lparr>Cpu := Cpu offer - cpu\<rparr>) else (False, offer))"

definition allocateDiskResource ::
  "'f Resource \<Rightarrow> 'f MesosOfferResources \<Rightarrow> bool \<times> 'f MesosOfferResources"
where
  "allocateDiskResource resource offer =
     (if ResDisk resource \<noteq> None then (True, offer\<lparr>Disk := ResDisk resource\<rparr>)
      else (False, offer))"

text \<open>
  The loop over the task's resources inside \<^verbatim>\<open>Assign\<close>. The flag is False when the
  loop leaves through \<^verbatim>\<open>continue L\<close>; the record is the offer as the loop leaves it.
\<close>

fun eat ::
  "'f::{minus,zero,ord} Resource list \<Rightarrow> 'f MesosOfferResources \<Rightarrow>
   bool \<times> 'f MesosOfferResources"
where
  "eat [] offer = (True, offer)"
| "eat (resource # rs) offer =
     (let res = GetScalarValue resource in
      if ResName resource = ''cpus'' then
        (case allocateCpuResource res offer of
           (True, offer') \<Rightarrow> eat rs offer'
         | (False, offer') \<Rightarrow> (False, offer'))
      else if ResName resource = ''mem'' then
        (case allocateMemResource res offer of
           (True, offer') \<Rightarrow> eat rs offer'
         | (False, offer') \<Rightarrow> (False, offer'))
      else if ResName resource = ''disk'' then eat rs (snd (allocateDiskResource resource offer))
      else eat rs offer)"

definition not_found :: "'f TaskInfo \<Rightarrow> failure" where
  "not_found t = Err (''Cannot find a suitable offer for task '' @ TaskName t)"

definition validOffer :: "'f DefaultResourceManager \<Rightarrow> 'f TaskInfo \<Rightarrow> 'f Offer \<Rightarrow> bool" where
  "validOffer d t offer =
     (case filterOn d (TaskName t) of None \<Rightarrow> True | Some f \<Rightarrow> filter_offer f offer)"

definition resolved_strategy :: "'f DefaultResourceManager \<Rightarrow> 'f TaskInfo \<Rightarrow> string" where
  "resolved_strategy d t = (case strategy d (TaskName t) of None \<Rightarrow> ''non-mux'' | Some s \<Rightarrow> s)"

definition pop_result ::
  "nat \<Rightarrow> 'f Offer \<Rightarrow> 'f DefaultResourceManager \<Rightarrow> (failure + 'f Offer) \<times> 'f DefaultResourceManager"
where
  "pop_result i raw d = (case popOffer i d of None \<Rightarrow> (Inl Panic, d) | Some d' \<Rightarrow> (Inr raw, d'))"

text \<open>
  The scan of \<^verbatim>\<open>Assign\<close>: \<open>i\<close> is the index of the offer under inspection and the
  list holds the offers from \<open>i\<close> on, as the \<^verbatim>\<open>range\<close> clause read them. A record is
  changed through its pointer, that is at index \<open>i\<close> of the pool.
\<close>

fun Assign_loop ::
  "'f::{minus,zero,ord} DefaultResourceManager \<Rightarrow> 'f TaskInfo \<Rightarrow> nat \<Rightarrow> 'f MesosOfferResources list \<Rightarrow>
   (failure + 'f Offer) \<times> 'f DefaultResourceManager"
where
  "Assign_loop d t i [] = (Inl (not_found t), d)"
| "Assign_loop d t i (offer # rest) =
     (if \<not> validOffer d t (Offer offer) then Assign_loop d t (Suc i) rest
      else
        (case eat (TaskResources t) offer of
           (False, offer') \<Rightarrow> Assign_loop (d\<lparr>offers := (offers d)[i := offer']\<rparr>) t (Suc i) rest
         | (True, offer') \<Rightarrow>
             (let offer'' = offer'\<lparr>Accepted := True\<rparr>;
                  d' = d\<lparr>offers := (offers d)[i := offer'']\<rparr>
              in if \<not> EqualFold (resolved_strategy d t) ''mux'' then pop_result i (Offer offer'') d'
                 else if Mem offer'' = 0 \<or> Cpu offer'' = 0 then pop_result i (Offer offer'') d'
                 else (Inr (Offer offer''), d'))))"

definition Assign ::
  "'f::{minus,zero,ord} DefaultResourceManager \<Rightarrow> 'f TaskInfo \<Rightarrow> (failure + 'f Offer) \<times> 'f DefaultResourceManager"
where
  "Assign d mesosTask = Assign_loop d mesosTask 0 (offers d)"

definition Offers :: "'f DefaultResourceManager \<Rightarrow> 'f Offer list" where
  "Offers d = map Offer (filter (\<lambda>m. \<not> Accepted m) (offers d))"

subsection \<open>Vocabulary of the properties\<close>

text \<open>The kinds \<^verbatim>\<open>AddFilter\<close> recognises, and the entries it can apply without failing.\<close>

definition known_kind :: "Filter \<Rightarrow> bool" where
  "known_kind f =
     (let kind = ToLower (Type f) in
      kind = ''ranges'' \<or> kind = ''set'' \<or> kind = ''text'' \<or> kind = ''scalar'' \<or>
      kind = ''strategy'')"

definition applicable :: "Filter \<Rightarrow> bool" where
  "applicable f = (known_kind f \<and> (ToLower (Type f) = ''strategy'' \<longrightarrow> Value f \<noteq> []))"

text \<open>
  The registry once a list of applicable entries has been registered for a task: the
  entries of the four filter kinds are appended, in their order, to the task's filter list
  (which starts empty when the task has none), and the task's strategy is the first value
  of the last strategy entry. Without an entry of the one sort, that part of the registry
  is as it was.
\<close>

definition strategy_kind :: "Filter \<Rightarrow> bool" where
  "strategy_kind f = (ToLower (Type f) = ''strategy'')"

definition filter_entries :: "Filter list \<Rightarrow> Filter list" where
  "filter_entries pre = filter (\<lambda>f. \<not> strategy_kind f) pre"

definition strategy_values :: "Filter list \<Rightarrow> string list" where
  "strategy_values pre = concat (map (\<lambda>f. take 1 (Value f)) (filter strategy_kind pre))"

definition registered ::
  "'f DefaultResourceManager \<Rightarrow> 'f TaskInfo \<Rightarrow> Filter list \<Rightarrow> 'f DefaultResourceManager"
where
  "registered d t pre =
     d\<lparr>filterOn :=
         (if filter_entries pre = [] then filterOn d
          else (filterOn d)
                 (TaskName t \<mapsto>
                    (case filterOn d (TaskName t) of None \<Rightarrow> [] | Some list \<Rightarrow> list) @
                    filter_entries pre)),
       strategy :=
         (if strategy_values pre = [] then strategy d
          else (strategy d)(TaskName t \<mapsto> last (strategy_values pre)))\<rparr>"

text \<open>
  What one iteration of the scan does with an offer: \<open>fits\<close> says that the iteration
  reaches the acceptance of the offer, \<open>scanned\<close> is the record an iteration that skips
  the offer leaves behind, \<open>matched\<close> the record of an accepted offer, and \<open>retained\<close>
  the condition under which the accepted offer is not popped.
\<close>

definition fits ::
  "'f::{minus,zero,ord} DefaultResourceManager \<Rightarrow> 'f TaskInfo \<Rightarrow> 'f MesosOfferResources \<Rightarrow> bool"
where
  "fits d t m = (validOffer d t (Offer m) \<and> fst (eat (TaskResources t) m))"

definition scanned ::
  "'f::{minus,zero,ord} DefaultResourceManager \<Rightarrow> 'f TaskInfo \<Rightarrow> 'f MesosOfferResources \<Rightarrow> 'f MesosOfferResources"
where
  "scanned d t m = (if validOffer d t (Offer m) then snd (eat (TaskResources t) m) else m)"

definition matched ::
  "'f::{minus,zero,ord} TaskInfo \<Rightarrow> 'f MesosOfferResources \<Rightarrow> 'f MesosOfferResources"
where
  "matched t m = (snd (eat (TaskResources t) m))\<lparr>Accepted := True\<rparr>"

definition retained ::
  "'f::{minus,zero,ord} DefaultResourceManager \<Rightarrow> 'f TaskInfo \<Rightarrow> 'f MesosOfferResources \<Rightarrow> bool"
where
  "retained d t m = (EqualFold (resolved_strategy d t) ''mux'' \<and> Mem m \<noteq> 0 \<and> Cpu m \<noteq> 0)"

text \<open>
  The amounts a task asks of one named scalar resource, in the order of its resource list,
  and what is left of a quantity once they have been subtracted from it one after the
  other, as the loop over the task's resources does.
\<close>

definition demands :: "string \<Rightarrow> 'f::{minus,zero,ord} Resource list \<Rightarrow> 'f list" where
  "demands name rs = map GetScalarValue (filter (\<lambda>r. ResName r = name) rs)"

definition debited :: "'f::{minus,zero,ord} \<Rightarrow> 'f list \<Rightarrow> 'f" where
  "debited x cs = foldl (\<lambda>a c. a - c) x cs"

text \<open>The invariant of the pool, and the offers that establish it.\<close>

definition pool_nonneg :: "'f::{minus,zero,ord} DefaultResourceManager \<Rightarrow> bool" where
  "pool_nonneg d = list_all (\<lambda>m. 0 \<le> Cpu m \<and> 0 \<le> Mem m) (offers d)"

definition offer_nonneg :: "'f::{minus,zero,ord} Offer \<Rightarrow> bool" where
  "offer_nonneg offer = list_all (\<lambda>r. 0 \<le> GetScalarValue r) (OfferResources offer)"

text \<open>
  The states the manager can be in: a new manager, and what the exported operations make of
  a state, \<^verbatim>\<open>AddOffers\<close> being given offers whose scalar values are not negative.
  \<^verbatim>\<open>Offers\<close> and \<^verbatim>\<open>HasResources\<close> only read the state.
\<close>

inductive reachable :: "'f::{minus,zero,ord} DefaultResourceManager \<Rightarrow> bool" where
  init: "reachable NewDefaultResourceManager"
| add_offers: "reachable d \<Longrightarrow> list_all offer_nonneg batch \<Longrightarrow> reachable (AddOffers d batch)"
| assign: "reachable d \<Longrightarrow> reachable (snd (Assign d t))"
| add_filter: "reachable d \<Longrightarrow> reachable (snd (AddFilter d t fs))"
| clear_filters: "reachable d \<Longrightarrow> reachable (ClearFilters d t)"

text \<open>Shorthands for the concrete scenarios.\<close>

definition scalar_res :: "string \<Rightarrow> real \<Rightarrow> real Resource" where
  "scalar_res name v = \<lparr>ResName = name, ResScalar = Some v, ResDisk = None\<rparr>"

definition disk_res :: "Resource_DiskInfo \<Rightarrow> real Resource" where
  "disk_res dsk = \<lparr>ResName = ''disk'', ResScalar = None, ResDisk = Some dsk\<rparr>"

definition raw_offer :: "string \<Rightarrow> real \<Rightarrow> real \<Rightarrow> real Attribute list \<Rightarrow> real Offer" where
  "raw_offer ident cpu mem attrs =
     \<lparr>OfferId = ident, OfferResources = [scalar_res ''cpus'' cpu, scalar_res ''mem'' mem],
      OfferAttributes = attrs\<rparr>"

definition pooled :: "real Offer \<Rightarrow> real \<Rightarrow> real \<Rightarrow> bool \<Rightarrow> real MesosOfferResources" where
  "pooled offer cpu mem acc = \<lparr>Offer = offer, Cpu = cpu, Mem = mem, Disk = None, Accepted = acc\<rparr>"

definition text_attr :: "string \<Rightarrow> real Attribute" where
  "text_attr s = \<lparr>AttrType = TEXT, AttrScalar = None, AttrText = Some s\<rparr>"

definition scalar_attr :: "real \<Rightarrow> real Attribute" where
  "scalar_attr v = \<lparr>AttrType = SCALAR, AttrScalar = Some v, AttrText = None\<rparr>"

section \<open>Properties\<close>

subsection \<open>Offer intake\<close>

lemma offers_appendOffers: "offers (appendOffers d batch) = offers d @ map mesosOffer batch"
  by (induction batch arbitrary: d) simp_all

lemma offers_AddOffers: "offers (AddOffers d batch) = map mesosOffer batch"
  by (simp add: AddOffers_def clearOffers_def offers_appendOffers)

text \<open>
  C8. \<^verbatim>\<open>AddOffers\<close> discards the pool it finds and rebuilds it from the batch alone, in
  the batch's order: right after it \<^verbatim>\<open>HasResources\<close> holds exactly when the batch was
  not empty, and an empty batch after a batch that nobody consumed leaves no resources.
\<close>

theorem AddOffers_HasResources:
  "HasResources (AddOffers d batch) = (batch \<noteq> [])
   \<and> offers (AddOffers d batch) = map mesosOffer batch
   \<and> HasResources (AddOffers (AddOffers d batch) []) = False"
  by (simp add: HasResources_def offers_AddOffers)

subsection \<open>Registration of filters\<close>

lemma ToLower_simps [simp]:
  "ToLower [] = []"
  "ToLower (c # s) = lower_char c # ToLower s"
  by (simp_all add: ToLower_def)

lemma AddFilter_filter_kind:
  assumes "applicable f" and "\<not> strategy_kind f"
  shows "AddFilter d t (f # fs) =
           AddFilter
             (d\<lparr>filterOn :=
                  (filterOn d)
                    (TaskName t \<mapsto>
                       (case filterOn d (TaskName t) of None \<Rightarrow> [] | Some list \<Rightarrow> list) @ [f])\<rparr>)
             t fs"
proof (cases f)
  case (fields ty vl)
  with assms have "ToLower ty = ''ranges'' \<or> ToLower ty = ''set''
       \<or> ToLower ty = ''text'' \<or> ToLower ty = ''scalar''"
    by (auto simp: applicable_def known_kind_def strategy_kind_def Let_def)
  with fields show ?thesis by (auto simp add: Let_def split: option.split)
qed

lemma AddFilter_strategy_kind:
  assumes "strategy_kind f" and "Value f = v # vs"
  shows "AddFilter d t (f # fs) = AddFilter (d\<lparr>strategy := (strategy d)(TaskName t \<mapsto> v)\<rparr>) t fs"
  using assms by (simp add: strategy_kind_def Let_def)

lemma filter_entries_simps:
  "filter_entries [] = []"
  "filter_entries (f # pre) = (if strategy_kind f then filter_entries pre else f # filter_entries pre)"
  by (simp_all add: filter_entries_def)

lemma strategy_values_simps:
  "strategy_values [] = []"
  "strategy_values (f # pre) =
     (if strategy_kind f then take 1 (Value f) @ strategy_values pre else strategy_values pre)"
  by (simp_all add: strategy_values_def)

lemma AddFilter_registered:
  "list_all applicable pre \<Longrightarrow>
   AddFilter d t (pre @ fs) = AddFilter (registered d t pre) t fs"
proof (induction pre arbitrary: d)
  case Nil
  then show ?case by (simp add: registered_def filter_entries_simps strategy_values_simps)
next
  case (Cons f pre)
  then have a: "applicable f" and r: "list_all applicable pre" by simp_all
  show ?case
  proof (cases "strategy_kind f")
    case True
    with a obtain v vs where v: "Value f = v # vs"
      by (auto simp: applicable_def strategy_kind_def neq_Nil_conv)
    define d1 where "d1 = d\<lparr>strategy := (strategy d)(TaskName t \<mapsto> v)\<rparr>"
    have "AddFilter d t ((f # pre) @ fs) = AddFilter d1 t (pre @ fs)"
      using AddFilter_strategy_kind [OF True v, of d t "pre @ fs"] by (simp add: d1_def)
    also have "\<dots> = AddFilter (registered d1 t pre) t fs"
      using r by (rule Cons.IH)
    also have "registered d1 t pre = registered d t (f # pre)"
      using True v
      by (cases "strategy_values pre = []")
        (simp_all add: registered_def d1_def filter_entries_simps strategy_values_simps)
    finally show ?thesis .
  next
    case False
    define l0 where "l0 = (case filterOn d (TaskName t) of None \<Rightarrow> [] | Some list \<Rightarrow> list)"
    define d1 where "d1 = d\<lparr>filterOn := (filterOn d)(TaskName t \<mapsto> l0 @ [f])\<rparr>"
    have "AddFilter d t ((f # pre) @ fs) = AddFilter d1 t (pre @ fs)"
      using AddFilter_filter_kind [OF a False, of d t "pre @ fs"] by (simp add: d1_def l0_def)
    also have "\<dots> = AddFilter (registered d1 t pre) t fs"
      using r by (rule Cons.IH)
    also have "registered d1 t pre = registered d t (f # pre)"
      using False
      by (cases "filter_entries pre = []")
        (simp_all add: registered_def d1_def l0_def filter_entries_simps strategy_values_simps)
    finally show ?thesis .
  qed
qed

lemma AddFilter_no_panic:
  "list_all (\<lambda>f. ToLower (Type f) = ''strategy'' \<longrightarrow> Value f \<noteq> []) fs \<Longrightarrow>
   fst (AddFilter d t fs) \<noteq> Some Panic"
proof (induction fs arbitrary: d)
  case Nil
  then show ?case by simp
next
  case (Cons f fs)
  then show ?case
    by (cases "Value f") (auto simp: Let_def split: option.split)
qed

text \<open>
  C9, as the code has it. When every entry before an entry of unrecognised kind can be
  applied (it has a recognised kind, and it carries a value if it is a strategy entry),
  \<^verbatim>\<open>AddFilter\<close> returns the error that names the kind as the caller wrote it. The
  entries before the invalid one have been applied, that is the registry is the one
  described by \<open>registered\<close>; the invalid entry and the entries after it leave no trace
  in it.
\<close>

theorem AddFilter_invalid_kind:
  assumes "list_all applicable pre" and "\<not> known_kind f"
  shows "AddFilter d t (pre @ f # post) =
           (Some (Err (''Invalid filter passed in: '' @ Type f @
                 ''. Allowed filters are SCALAR, TEXT, SET, RANGES, and STRATEGY.'')),
            registered d t pre)"
proof -
  from assms(2) have "AddFilter e t (f # post) = (Some (Err (invalid_filter (Type f))), e)"
    for e :: "'a DefaultResourceManager"
    by (simp add: known_kind_def Let_def)
  with AddFilter_registered [OF assms(1), of d t "f # post"] show ?thesis
    by (simp add: invalid_filter_def)
qed

theorem AddFilter_invalid_kind_witness:
  "list_all applicable [\<lparr>Type = ''TEXT'', Value = [''ssd'']\<rparr>, \<lparr>Type = ''Strategy'', Value = [''mux'', ''x'']\<rparr>,
      \<lparr>Type = ''set'', Value = [''a'', ''b'']\<rparr>]
   \<and> \<not> known_kind \<lparr>Type = ''bogus'', Value = [''x'']\<rparr>
   \<and> AddFilter
       \<lparr>offers = [pooled (raw_offer ''o1'' 4 4096 []) 4 4096 False],
        filterOn = [''web'' \<mapsto> [\<lparr>Type = ''ranges'', Value = []\<rparr>]], strategy = Map.empty\<rparr>
       \<lparr>TaskName = ''web'', TaskResources = []\<rparr>
       ([\<lparr>Type = ''TEXT'', Value = [''ssd'']\<rparr>, \<lparr>Type = ''Strategy'', Value = [''mux'', ''x'']\<rparr>,
         \<lparr>Type = ''set'', Value = [''a'', ''b'']\<rparr>] @
        \<lparr>Type = ''bogus'', Value = [''x'']\<rparr> # [\<lparr>Type = ''text'', Value = [''late'']\<rparr>]) =
       (Some (Err ''Invalid filter passed in: bogus. Allowed filters are SCALAR, TEXT, SET, RANGES, and STRATEGY.''),
        \<lparr>offers = [pooled (raw_offer ''o1'' 4 4096 []) 4 4096 False],
         filterOn =
           [''web'' \<mapsto>
              [\<lparr>Type = ''ranges'', Value = []\<rparr>, \<lparr>Type = ''TEXT'', Value = [''ssd'']\<rparr>,
               \<lparr>Type = ''set'', Value = [''a'', ''b'']\<rparr>]],
         strategy = [''web'' \<mapsto> ''mux'']\<rparr>)"
  (is "?h1 \<and> ?h2 \<and> ?c")
proof -
  have h1: ?h1 by (simp add: applicable_def known_kind_def lower_char_def)
  have h2: ?h2 by (simp add: known_kind_def lower_char_def)
  have c: ?c
    using AddFilter_invalid_kind [OF h1 h2,
        of "\<lparr>offers = [pooled (raw_offer ''o1'' 4 4096 []) 4 4096 False],
            filterOn = [''web'' \<mapsto> [\<lparr>Type = ''ranges'', Value = []\<rparr>]], strategy = Map.empty\<rparr>"
          "\<lparr>TaskName = ''web'', TaskResources = []\<rparr>" "[\<lparr>Type = ''text'', Value = [''late'']\<rparr>]"]
    by (simp add: registered_def filter_entries_def strategy_values_def strategy_kind_def lower_char_def)
  from h1 h2 c show ?thesis by blast
qed

text \<open>
  C9 as stated fails: a strategy entry without a value before the entry of unrecognised
  kind makes the call panic, so that no error is returned.
\<close>

theorem AddFilter_panics_before_invalid_kind:
  "\<not> known_kind \<lparr>Type = ''bogus'', Value = [''x'']\<rparr>
   \<and> AddFilter
       \<lparr>offers = [pooled (raw_offer ''o1'' 4 4096 []) 4 4096 False], filterOn = Map.empty,
        strategy = Map.empty\<rparr>
       \<lparr>TaskName = ''web'', TaskResources = []\<rparr>
       [\<lparr>Type = ''strategy'', Value = []\<rparr>, \<lparr>Type = ''bogus'', Value = [''x'']\<rparr>] =
       (Some Panic,
        \<lparr>offers = [pooled (raw_offer ''o1'' 4 4096 []) 4 4096 False], filterOn = Map.empty,
         strategy = Map.empty\<rparr>)"
  by (simp add: known_kind_def lower_char_def)

text \<open>
  C10, as the code has it. A strategy entry (the kind compared without regard to case)
  with an empty value list makes \<^verbatim>\<open>AddFilter\<close> panic on reading the first value,
  when every entry before it can be applied; the registry is then the one these entries
  produce, and no error value is returned. When every strategy entry of the call carries
  a value, \<^verbatim>\<open>AddFilter\<close> does not panic.
\<close>

theorem AddFilter_strategy_empty_panics:
  "(list_all applicable pre \<longrightarrow> ToLower (Type f) = ''strategy'' \<longrightarrow> Value f = [] \<longrightarrow>
      AddFilter d t (pre @ f # post) = (Some Panic, registered d t pre))
   \<and> (list_all (\<lambda>f. ToLower (Type f) = ''strategy'' \<longrightarrow> Value f \<noteq> []) fs \<longrightarrow>
      fst (AddFilter d2 t2 fs) \<noteq> Some Panic)"
proof (intro conjI impI)
  assume p: "list_all applicable pre"
    and s: "ToLower (Type f) = ''strategy''" and e: "Value f = []"
  from s e have "AddFilter e t (f # post) = (Some Panic, e)"
    for e :: "'a DefaultResourceManager"
    by (simp add: Let_def)
  with AddFilter_registered [OF p, of d t "f # post"]
  show "AddFilter d t (pre @ f # post) = (Some Panic, registered d t pre)"
    by simp
next
  assume "list_all (\<lambda>f. ToLower (Type f) = ''strategy'' \<longrightarrow> Value f \<noteq> []) fs"
  then show "fst (AddFilter d2 t2 fs) \<noteq> Some Panic" by (rule AddFilter_no_panic)
qed

theorem AddFilter_strategy_empty_panics_witness:
  "list_all applicable [\<lparr>Type = ''text'', Value = [''ssd'']\<rparr>]
   \<and> ToLower (Type \<lparr>Type = ''Strategy'', Value = []\<rparr>) = ''strategy''
   \<and> Value \<lparr>Type = ''Strategy'', Value = []\<rparr> = []
   \<and> AddFilter
       \<lparr>offers = [pooled (raw_offer ''o1'' 4 4096 []) 4 4096 False], filterOn = Map.empty,
        strategy = Map.empty\<rparr>
       \<lparr>TaskName = ''web'', TaskResources = []\<rparr>
       ([\<lparr>Type = ''text'', Value = [''ssd'']\<rparr>] @ \<lparr>Type = ''Strategy'', Value = []\<rparr> #
        [\<lparr>Type = ''set'', Value = [''late'']\<rparr>]) =
       (Some Panic,
        \<lparr>offers = [pooled (raw_offer ''o1'' 4 4096 []) 4 4096 False],
         filterOn = [''web'' \<mapsto> [\<lparr>Type = ''text'', Value = [''ssd'']\<rparr>]],
         strategy = Map.empty\<rparr>)
   \<and> list_all (\<lambda>f. ToLower (Type f) = ''strategy'' \<longrightarrow> Value f \<noteq> [])
        [\<lparr>Type = ''STRATEGY'', Value = [''mux'']\<rparr>]
   \<and> fst (AddFilter
        \<lparr>offers = [pooled (raw_offer ''o1'' 4 4096 []) 4 4096 False], filterOn = Map.empty,
         strategy = Map.empty\<rparr>
        \<lparr>TaskName = ''web'', TaskResources = []\<rparr>
        [\<lparr>Type = ''STRATEGY'', Value = [''mux'']\<rparr>]) \<noteq> Some Panic"
  (is "?h1 \<and> ?h2 \<and> ?h3 \<and> ?c1 \<and> ?h4 \<and> ?c2")
proof -
  have h1: ?h1 by (simp add: applicable_def known_kind_def lower_char_def)
  have h2: ?h2 by (simp add: lower_char_def)
  have h3: ?h3 by simp
  have h4: ?h4 by simp
  note T = AddFilter_strategy_empty_panics
    [where pre = "[\<lparr>Type = ''text'', Value = [''ssd'']\<rparr>]"
       and f = "\<lparr>Type = ''Strategy'', Value = []\<rparr>"
       and d = "\<lparr>offers = [pooled (raw_offer ''o1'' 4 4096 []) 4 4096 False], filterOn = Map.empty,
                 strategy = Map.empty\<rparr>"
       and t = "\<lparr>TaskName = ''web'', TaskResources = []\<rparr>"
       and post = "[\<lparr>Type = ''set'', Value = [''late'']\<rparr>]"
       and fs = "[\<lparr>Type = ''STRATEGY'', Value = [''mux'']\<rparr>]"
       and ?d2.0 = "\<lparr>offers = [pooled (raw_offer ''o1'' 4 4096 []) 4 4096 False],
                     filterOn = Map.empty, strategy = Map.empty\<rparr>"
       and ?t2.0 = "\<lparr>TaskName = ''web'', TaskResources = []\<rparr>"]
  from T h1 h2 h3 have c1: ?c1
    by (simp add: registered_def filter_entries_def strategy_values_def strategy_kind_def lower_char_def)
  from T h4 have c2: ?c2 by blast
  from h1 h2 h3 c1 h4 c2 show ?thesis by blast
qed

text \<open>
  C10 as stated fails: when an entry of unrecognised kind comes before the strategy entry
  without a value, \<^verbatim>\<open>AddFilter\<close> returns the error for that entry and does not panic.
\<close>

theorem AddFilter_invalid_kind_before_empty_strategy:
  "ToLower (Type \<lparr>Type = ''strategy'', Value = []\<rparr>) = ''strategy''
   \<and> AddFilter
       \<lparr>offers = [pooled (raw_offer ''o1'' 4 4096 []) 4 4096 False], filterOn = Map.empty,
        strategy = Map.empty\<rparr>
       \<lparr>TaskName = ''web'', TaskResources = []\<rparr>
       [\<lparr>Type = ''bogus'', Value = [''x'']\<rparr>, \<lparr>Type = ''strategy'', Value = []\<rparr>] =
       (Some (Err ''Invalid filter passed in: bogus. Allowed filters are SCALAR, TEXT, SET, RANGES, and STRATEGY.''),
        \<lparr>offers = [pooled (raw_offer ''o1'' 4 4096 []) 4 4096 False], filterOn = Map.empty,
         strategy = Map.empty\<rparr>)"
  by (simp add: lower_char_def invalid_filter_def)

subsection \<open>Filter evaluation and the scan\<close>

lemma filterOnAttrText_iff:
  "filterOnAttrText ts a = (ts \<noteq> [] \<and> ToLower (hd ts) = ToLower (GetTextValue a))"
  by (cases ts) simp_all

lemma filter_attrs_iff:
  "filter_attrs f attrs = (\<exists>a\<in>set attrs. AttrType a = TEXT \<and> filterOnAttrText (Value f) a)"
  by (induction attrs) (auto split: Value_Type.splits)

lemma filter_offer_iff:
  "filter_offer fs offer = (\<exists>f\<in>set fs. filter_attrs f (OfferAttributes offer))"
  by (induction fs) auto

lemma eat_Offer: "Offer (snd (eat rs m)) = Offer m"
  by (induction rs m rule: eat.induct)
     (auto simp: Let_def allocateCpuResource_def allocateMemResource_def allocateDiskResource_def)

lemma validOffer_offers [simp]: "validOffer (d\<lparr>offers := xs\<rparr>) t = validOffer d t"
  by (rule ext) (simp add: validOffer_def)

lemma resolved_strategy_offers [simp]: "resolved_strategy (d\<lparr>offers := xs\<rparr>) t = resolved_strategy d t"
  by (simp add: resolved_strategy_def)

lemma fits_offers [simp]: "fits (d\<lparr>offers := xs\<rparr>) t = fits d t"
  by (rule ext) (simp add: fits_def)

lemma scanned_offers [simp]: "scanned (d\<lparr>offers := xs\<rparr>) t = scanned d t"
  by (rule ext) (simp add: scanned_def)

lemma retained_offers [simp]: "retained (d\<lparr>offers := xs\<rparr>) t = retained d t"
  by (rule ext) (simp add: retained_def)

lemma Assign_loop_not_found:
  "offers d = pre @ rest \<Longrightarrow> i = length pre \<Longrightarrow> \<forall>m\<in>set rest. \<not> fits d t m \<Longrightarrow>
   Assign_loop d t i rest = (Inl (not_found t), d\<lparr>offers := pre @ map (scanned d t) rest\<rparr>)"
proof (induction rest arbitrary: d pre i)
  case Nil
  then show ?case by simp
next
  case (Cons m rest)
  show ?case
  proof (cases "validOffer d t (Offer m)")
    case False
    have "Assign_loop d t (Suc i) rest =
            (Inl (not_found t), d\<lparr>offers := (pre @ [m]) @ map (scanned d t) rest\<rparr>)"
      using Cons.prems by (intro Cons.IH) simp_all
    moreover have "scanned d t m = m"
      using False by (simp add: scanned_def)
    ultimately show ?thesis using False by simp
  next
    case True
    with Cons.prems have nf: "\<not> fst (eat (TaskResources t) m)" by (simp add: fits_def)
    define m' where "m' = snd (eat (TaskResources t) m)"
    define d1 where "d1 = d\<lparr>offers := (offers d)[i := m']\<rparr>"
    have e: "eat (TaskResources t) m = (False, m')"
      using nf by (simp add: m'_def prod_eq_iff)
    have o1: "offers d1 = (pre @ [m']) @ rest"
      using Cons.prems by (simp add: d1_def list_update_append)
    have "Assign_loop d1 t (Suc i) rest =
            (Inl (not_found t), d1\<lparr>offers := (pre @ [m']) @ map (scanned d1 t) rest\<rparr>)"
      using Cons.prems o1 by (intro Cons.IH) (simp_all add: d1_def)
    moreover have "Assign_loop d t i (m # rest) = Assign_loop d1 t (Suc i) rest"
      using True e by (simp add: d1_def)
    moreover have "scanned d t m = m'"
      using True by (simp add: scanned_def m'_def)
    ultimately show ?thesis by (simp add: d1_def)
  qed
qed

lemma Assign_loop_found:
  "offers d = pre @ ys @ m # zs \<Longrightarrow> i = length pre \<Longrightarrow> \<forall>y\<in>set ys. \<not> fits d t y \<Longrightarrow> fits d t m \<Longrightarrow>
   Assign_loop d t i (ys @ m # zs) =
     (if retained d t (matched t m)
      then (Inr (Offer m), d\<lparr>offers := pre @ map (scanned d t) ys @ matched t m # zs\<rparr>)
      else pop_result (i + length ys) (Offer m)
             (d\<lparr>offers := pre @ map (scanned d t) ys @ matched t m # zs\<rparr>))"
proof (induction ys arbitrary: d pre i)
  case Nil
  define m' where "m' = snd (eat (TaskResources t) m)"
  from Nil.prems have v: "validOffer d t (Offer m)" and e: "eat (TaskResources t) m = (True, m')"
    by (simp_all add: fits_def m'_def prod_eq_iff)
  have u: "(offers d)[i := x] = pre @ x # zs" for x
    using Nil.prems by (simp add: list_update_append)
  have o: "Offer m' = Offer m" by (simp add: m'_def eat_Offer)
  show ?case
    using v e u o by (auto simp: Let_def retained_def matched_def m'_def [symmetric])
next
  case (Cons y ys)
  show ?case
  proof (cases "validOffer d t (Offer y)")
    case False
    have "Assign_loop d t (Suc i) (ys @ m # zs) =
     (if retained d t (matched t m)
      then (Inr (Offer m), d\<lparr>offers := (pre @ [y]) @ map (scanned d t) ys @ matched t m # zs\<rparr>)
      else pop_result (Suc i + length ys) (Offer m)
             (d\<lparr>offers := (pre @ [y]) @ map (scanned d t) ys @ matched t m # zs\<rparr>))"
      using Cons.prems by (intro Cons.IH) simp_all
    moreover have "scanned d t y = y"
      using False by (simp add: scanned_def)
    ultimately show ?thesis using False by simp
  next
    case True
    with Cons.prems have nf: "\<not> fst (eat (TaskResources t) y)" by (simp add: fits_def)
    define y' where "y' = snd (eat (TaskResources t) y)"
    define d1 where "d1 = d\<lparr>offers := (offers d)[i := y']\<rparr>"
    have e: "eat (TaskResources t) y = (False, y')"
      using nf by (simp add: y'_def prod_eq_iff)
    have o1: "offers d1 = (pre @ [y']) @ ys @ m # zs"
      using Cons.prems by (simp add: d1_def list_update_append)
    have "Assign_loop d1 t (Suc i) (ys @ m # zs) =
     (if retained d1 t (matched t m)
      then (Inr (Offer m), d1\<lparr>offers := (pre @ [y']) @ map (scanned d1 t) ys @ matched t m # zs\<rparr>)
      else pop_result (Suc i + length ys) (Offer m)
             (d1\<lparr>offers := (pre @ [y']) @ map (scanned d1 t) ys @ matched t m # zs\<rparr>))"
      using Cons.prems o1 by (intro Cons.IH) (simp_all add: d1_def)
    moreover have "Assign_loop d t i ((y # ys) @ m # zs) = Assign_loop d1 t (Suc i) (ys @ m # zs)"
      using True e by (simp add: d1_def)
    moreover have "scanned d t y = y'"
      using True by (simp add: scanned_def y'_def)
    ultimately show ?thesis by (simp add: d1_def)
  qed
qed


lemma popOffer_valid:
  assumes "k < length (offers d)"
  shows "\<exists>d'. popOffer k d = Some d' \<and> filterOn d' = filterOn d \<and> strategy d' = strategy d
           \<and> length (offers d') + 1 = length (offers d)
           \<and> mset (offers d') + {#offers d ! k#} = mset (offers d)
           \<and> set (offers d') \<subseteq> set (offers d)"
proof -
  define xs where "xs = offers d"
  define n where "n = length xs"
  define ys where "ys = xs[n - 1 := xs ! k, k := xs ! (n - 1)]"
  have k: "k < n" and n: "0 < n" using assms by (auto simp: n_def xs_def)
  have len: "length ys = n" by (simp add: ys_def n_def)
  have ne: "ys \<noteq> []" using len n by auto
  have ms: "mset ys = mset xs"
    unfolding ys_def using k n by (intro mset_swap) (simp_all add: n_def)
  have "last ys = ys ! (n - 1)" using ne len by (simp add: last_conv_nth)
  also have "\<dots> = xs ! k"
    using k n by (cases "k = n - 1") (simp_all add: ys_def n_def)
  finally have l: "last ys = xs ! k" .
  have "mset (butlast ys) + {#last ys#} = mset ys"
  proof -
    have "mset (butlast ys @ [last ys]) = mset ys" using ne by simp
    then show ?thesis by simp
  qed
  with l ms have m: "mset (butlast ys) + {#xs ! k#} = mset xs" by simp
  have "set (butlast ys) \<subseteq> set ys" by (meson in_set_butlastD subsetI)
  also have "set ys = set xs" using ms by (metis set_mset_mset)
  finally have s: "set (butlast ys) \<subseteq> set xs" .
  have p: "popOffer k d = Some (d\<lparr>offers := butlast ys\<rparr>)"
    using k n by (simp add: popOffer_def Let_def xs_def [symmetric] n_def [symmetric] ys_def)
  show ?thesis
    using p m s len n by (simp add: xs_def [symmetric] n_def)
qed


lemma Assign_not_found:
  "\<forall>m\<in>set (offers d). \<not> fits d t m \<Longrightarrow>
   Assign d t = (Inl (not_found t), d\<lparr>offers := map (scanned d t) (offers d)\<rparr>)"
  using Assign_loop_not_found [of d "[]" "offers d" 0 t] by (simp add: Assign_def)

lemma Assign_found:
  assumes "offers d = ys @ m # zs" and "\<forall>y\<in>set ys. \<not> fits d t y" and "fits d t m"
  shows "Assign d t =
     (if retained d t (matched t m)
      then (Inr (Offer m), d\<lparr>offers := map (scanned d t) ys @ matched t m # zs\<rparr>)
      else pop_result (length ys) (Offer m)
             (d\<lparr>offers := map (scanned d t) ys @ matched t m # zs\<rparr>))"
  using Assign_loop_found [of d "[]" ys m zs 0 t] assms by (simp add: Assign_def)

lemma first_fit_split:
  "\<exists>m\<in>set (offers d). fits d t m \<Longrightarrow>
   \<exists>ys m zs. offers d = ys @ m # zs \<and> (\<forall>y\<in>set ys. \<not> fits d t y) \<and> fits d t m"
  using split_list_first_prop [of "offers d" "fits d t"] by blast

lemma scanned_Offer: "Offer (scanned d t m) = Offer m"
  by (simp add: scanned_def eat_Offer)

lemma matched_Offer: "Offer (matched t m) = Offer m"
  by (simp add: matched_def eat_Offer)

lemma demands_simps:
  "demands name [] = []"
  "demands name (r # rs) =
     (if ResName r = name then GetScalarValue r # demands name rs else demands name rs)"
  by (simp_all add: demands_def)

lemma debited_simps:
  "debited x [] = x"
  "debited x (c # cs) = debited (x - c) cs"
  by (simp_all add: debited_def)

lemma eat_cpus:
  "ResName r = ''cpus'' \<Longrightarrow>
   eat (r # rs) m =
     (if Cpu m - GetScalarValue r \<ge> 0 then eat rs (m\<lparr>Cpu := Cpu m - GetScalarValue r\<rparr>)
      else (False, m))"
  by (simp add: Let_def allocateCpuResource_def)

lemma eat_mem:
  "ResName r = ''mem'' \<Longrightarrow>
   eat (r # rs) m =
     (if Mem m - GetScalarValue r \<ge> 0 then eat rs (m\<lparr>Mem := Mem m - GetScalarValue r\<rparr>)
      else (False, m))"
  by (simp add: Let_def allocateMemResource_def)

lemma eat_disk:
  "ResName r = ''disk'' \<Longrightarrow>
   eat (r # rs) m = eat rs (case ResDisk r of None \<Rightarrow> m | Some x \<Rightarrow> m\<lparr>Disk := Some x\<rparr>)"
  by (auto simp add: Let_def allocateDiskResource_def)

lemma eat_other:
  "ResName r \<noteq> ''cpus'' \<Longrightarrow> ResName r \<noteq> ''mem'' \<Longrightarrow> ResName r \<noteq> ''disk'' \<Longrightarrow>
   eat (r # rs) m = eat rs m"
  by (simp add: Let_def)

declare eat.simps(2) [simp del]

lemma eat_debited:
  "fst (eat rs m) \<Longrightarrow>
   Cpu (snd (eat rs m)) = debited (Cpu m) (demands ''cpus'' rs)
   \<and> Mem (snd (eat rs m)) = debited (Mem m) (demands ''mem'' rs)"
proof (induction rs arbitrary: m)
  case Nil
  then show ?case by (simp add: demands_simps debited_simps)
next
  case (Cons r rs)
  consider (cpu) "ResName r = ''cpus''" | (mem) "ResName r = ''mem''" | (disk) "ResName r = ''disk''"
    | (other) "ResName r \<noteq> ''cpus''" "ResName r \<noteq> ''mem''" "ResName r \<noteq> ''disk''" by blast
  then show ?case
  proof cases
    case cpu
    with Cons.prems have ok: "Cpu m - GetScalarValue r \<ge> 0"
      by (auto simp: eat_cpus split: if_splits)
    with cpu Cons.prems have "fst (eat rs (m\<lparr>Cpu := Cpu m - GetScalarValue r\<rparr>))"
      by (simp add: eat_cpus)
    from Cons.IH [OF this] cpu ok show ?thesis
      by (simp add: eat_cpus demands_simps debited_simps)
  next
    case mem
    with Cons.prems have ok: "Mem m - GetScalarValue r \<ge> 0"
      by (auto simp: eat_mem split: if_splits)
    with mem Cons.prems have "fst (eat rs (m\<lparr>Mem := Mem m - GetScalarValue r\<rparr>))"
      by (simp add: eat_mem)
    from Cons.IH [OF this] mem ok show ?thesis
      by (simp add: eat_mem demands_simps debited_simps)
  next
    case disk
    with Cons.prems
    have "fst (eat rs (case ResDisk r of None \<Rightarrow> m | Some x \<Rightarrow> m\<lparr>Disk := Some x\<rparr>))"
      by (simp add: eat_disk)
    from Cons.IH [OF this] disk show ?thesis
      by (simp add: eat_disk demands_simps split: option.split)
  next
    case other
    with Cons.prems have "fst (eat rs m)" by (simp add: eat_other)
    from Cons.IH [OF this] other show ?thesis
      by (simp add: eat_other demands_simps)
  qed
qed

lemma not_EqualFold_non_mux: "\<not> EqualFold ''non-mux'' ''mux''"
  by (simp add: EqualFold_def)

subsection \<open>Retention\<close>

text \<open>
  C6. When no strategy is registered for the task, a successful \<^verbatim>\<open>Assign\<close> removes the
  matched offer from the pool whatever capacity it has left: the pool is one shorter and
  holds the raw offers it held before, less the returned one. With one offer of 4 cpus and
  4096 of memory and two tasks asking for 1 cpu each, the first call returns the offer and
  empties the pool, and the second fails with the not-found error that names the task.
\<close>

theorem Assign_non_mux_single_use:
  "(strategy d (TaskName t) = None \<longrightarrow> Assign d t = (Inr raw, d') \<longrightarrow>
      length (offers d') + 1 = length (offers d)
      \<and> mset (map Offer (offers d')) + {#raw#} = mset (map Offer (offers d)))
   \<and> Assign
        (AddOffers NewDefaultResourceManager
           [raw_offer ''o1'' 4 4096 []])
        \<lparr>TaskName = ''t1'', TaskResources = [scalar_res ''cpus'' 1]\<rparr> =
       (Inr (raw_offer ''o1'' 4 4096 []),
        NewDefaultResourceManager)
   \<and> Assign NewDefaultResourceManager \<lparr>TaskName = ''t2'', TaskResources = [scalar_res ''cpus'' 1]\<rparr> =
       (Inl (Err ''Cannot find a suitable offer for task t2''), NewDefaultResourceManager)"
proof (intro conjI impI)
  assume s: "strategy d (TaskName t) = None" and a: "Assign d t = (Inr raw, d')"
  have "\<exists>m\<in>set (offers d). fits d t m"
  proof (rule ccontr)
    assume "\<not> ?thesis"
    then have "fst (Assign d t) = Inl (not_found t)" by (simp add: Assign_not_found)
    with a show False by simp
  qed
  then obtain ys m zs where o: "offers d = ys @ m # zs"
    and n: "\<forall>y\<in>set ys. \<not> fits d t y" and f: "fits d t m"
    using first_fit_split by blast
  define dm where "dm = d\<lparr>offers := map (scanned d t) ys @ matched t m # zs\<rparr>"
  from s have "\<not> retained d t (matched t m)"
    by (simp add: retained_def resolved_strategy_def not_EqualFold_non_mux)
  with Assign_found [OF o n f] have r: "Assign d t = pop_result (length ys) (Offer m) dm"
    by (simp add: dm_def)
  have k: "length ys < length (offers dm)" by (simp add: dm_def)
  from popOffer_valid [OF k] obtain d'' where p: "popOffer (length ys) dm = Some d''"
    and l: "length (offers d'') + 1 = length (offers dm)"
    and ms: "mset (offers d'') + {#offers dm ! length ys#} = mset (offers dm)" by blast
  from r p a have e: "raw = Offer m" "d' = d''" by (simp_all add: pop_result_def)
  have "offers dm ! length ys = matched t m"
    by (simp add: dm_def nth_append)
  with ms have "image_mset Offer (mset (offers d'') + {#matched t m#}) = image_mset Offer (mset (offers dm))"
    by simp
  then have "mset (map Offer (offers d'')) + {#Offer m#} = mset (map Offer (offers dm))"
    by (simp add: matched_Offer)
  also have "map Offer (offers dm) = map Offer (offers d)"
    by (simp add: dm_def o scanned_Offer matched_Offer)
  finally show "mset (map Offer (offers d')) + {#raw#} = mset (map Offer (offers d))"
    using e by simp
  from l e show "length (offers d') + 1 = length (offers d)"
    by (simp add: dm_def o)
next
  show "Assign
        (AddOffers NewDefaultResourceManager
           [raw_offer ''o1'' 4 4096 []])
        \<lparr>TaskName = ''t1'', TaskResources = [scalar_res ''cpus'' 1]\<rparr> =
       (Inr (raw_offer ''o1'' 4 4096 []),
        NewDefaultResourceManager)"
    by (simp add: Assign_def AddOffers_def clearOffers_def NewDefaultResourceManager_def mesosOffer_def raw_offer_def
        scalar_res_def GetScalarValue_def validOffer_def eat_cpus resolved_strategy_def
        EqualFold_def pop_result_def popOffer_def)
next
  show "Assign NewDefaultResourceManager \<lparr>TaskName = ''t2'', TaskResources = [scalar_res ''cpus'' 1]\<rparr> =
       (Inl (Err ''Cannot find a suitable offer for task t2''), NewDefaultResourceManager)"
    by (simp add: Assign_def NewDefaultResourceManager_def not_found_def)
qed

theorem Assign_non_mux_single_use_witness:
  "strategy (AddOffers NewDefaultResourceManager [raw_offer ''o1'' 4 4096 []])
     (TaskName \<lparr>TaskName = ''t1'', TaskResources = [scalar_res ''cpus'' 1]\<rparr>) = None
   \<and> Assign (AddOffers NewDefaultResourceManager [raw_offer ''o1'' 4 4096 []])
        \<lparr>TaskName = ''t1'', TaskResources = [scalar_res ''cpus'' 1]\<rparr> =
       (Inr (raw_offer ''o1'' 4 4096 []), NewDefaultResourceManager)
   \<and> length (offers (NewDefaultResourceManager :: real DefaultResourceManager)) + 1 =
       length (offers (AddOffers NewDefaultResourceManager [raw_offer ''o1'' 4 4096 []]))
   \<and> mset (map Offer (offers NewDefaultResourceManager)) + {#raw_offer ''o1'' 4 4096 []#} =
       mset (map Offer (offers (AddOffers NewDefaultResourceManager [raw_offer ''o1'' 4 4096 []])))"
proof -
  note T = Assign_non_mux_single_use
    [of "AddOffers NewDefaultResourceManager [raw_offer ''o1'' 4 4096 []]"
        "\<lparr>TaskName = ''t1'', TaskResources = [scalar_res ''cpus'' 1]\<rparr>"
        "raw_offer ''o1'' 4 4096 []" NewDefaultResourceManager]
  have h1: "strategy (AddOffers NewDefaultResourceManager [raw_offer ''o1'' 4 4096 []])
     (TaskName \<lparr>TaskName = ''t1'', TaskResources = [scalar_res ''cpus'' 1]\<rparr>) = None"
    by (simp add: AddOffers_def clearOffers_def NewDefaultResourceManager_def)
  from T have h2: "Assign (AddOffers NewDefaultResourceManager [raw_offer ''o1'' 4 4096 []])
        \<lparr>TaskName = ''t1'', TaskResources = [scalar_res ''cpus'' 1]\<rparr> =
       (Inr (raw_offer ''o1'' 4 4096 []), NewDefaultResourceManager)"
    by blast
  from T h1 h2 show ?thesis by blast
qed

text \<open>
  C7. Under a registered strategy that equals \<^verbatim>\<open>mux\<close> without regard to case, a
  successful \<^verbatim>\<open>Assign\<close> returns the first offer that fits. Its cpu is what the
  subtractions of the code leave of the offer's cpu, the task's cpus demands being
  subtracted one after the other: for a task with one cpus demand \<open>c\<close> and an offer with
  cpu \<open>X\<close> it is \<open>X - c\<close>, the difference as the quantity type computes it. The same
  holds of mem. When both are left nonzero the offer stays in the pool, at its index, with
  exactly these amounts (and marked accepted); it is popped exactly when one of them is
  zero. An offer of the pool that is the first to fit
  a task is the one a later \<^verbatim>\<open>Assign\<close> returns, whether it is marked accepted or not.
\<close>

theorem Assign_mux_retains:
  "(strategy d (TaskName t) = Some s \<longrightarrow> EqualFold s ''mux'' \<longrightarrow> Assign d t = (Inr raw, d') \<longrightarrow>
     (\<exists>ys m zs. offers d = ys @ m # zs \<and> raw = Offer m
        \<and> Cpu (matched t m) = debited (Cpu m) (demands ''cpus'' (TaskResources t))
        \<and> Mem (matched t m) = debited (Mem m) (demands ''mem'' (TaskResources t))
        \<and> (\<forall>c. demands ''cpus'' (TaskResources t) = [c] \<longrightarrow> Cpu (matched t m) = Cpu m - c)
        \<and> (Cpu (matched t m) \<noteq> 0 \<and> Mem (matched t m) \<noteq> 0 \<longrightarrow>
             offers d' = map (scanned d t) ys @ matched t m # zs)
        \<and> (Cpu (matched t m) = 0 \<or> Mem (matched t m) = 0 \<longrightarrow>
             popOffer (length ys) (d\<lparr>offers := map (scanned d t) ys @ matched t m # zs\<rparr>) = Some d'
             \<and> length (offers d') + 1 = length (offers d))))
   \<and> (offers d2 = ys2 @ m2 # zs2 \<longrightarrow> (\<forall>y\<in>set ys2. \<not> fits d2 t2 y) \<longrightarrow> fits d2 t2 m2 \<longrightarrow>
        fst (Assign d2 t2) = Inr (Offer m2))"
proof (intro conjI impI)
  assume s: "strategy d (TaskName t) = Some s" and mux: "EqualFold s ''mux''"
    and a: "Assign d t = (Inr raw, d')"
  have "\<exists>m\<in>set (offers d). fits d t m"
  proof (rule ccontr)
    assume "\<not> ?thesis"
    then have "fst (Assign d t) = Inl (not_found t)" by (simp add: Assign_not_found)
    with a show False by simp
  qed
  then obtain ys m zs where o: "offers d = ys @ m # zs"
    and n: "\<forall>y\<in>set ys. \<not> fits d t y" and f: "fits d t m"
    using first_fit_split by blast
  define dm where "dm = d\<lparr>offers := map (scanned d t) ys @ matched t m # zs\<rparr>"
  from f have "fst (eat (TaskResources t) m)" by (simp add: fits_def)
  from eat_debited [OF this]
  have c: "Cpu (matched t m) = debited (Cpu m) (demands ''cpus'' (TaskResources t))"
    and e: "Mem (matched t m) = debited (Mem m) (demands ''mem'' (TaskResources t))"
    by (simp_all add: matched_def)
  from c have c1: "\<forall>c. demands ''cpus'' (TaskResources t) = [c] \<longrightarrow> Cpu (matched t m) = Cpu m - c"
    by (simp add: debited_simps)
  have r: "retained d t (matched t m) = (Cpu (matched t m) \<noteq> 0 \<and> Mem (matched t m) \<noteq> 0)"
    using s mux by (auto simp: retained_def resolved_strategy_def)
  have k: "length ys < length (offers dm)" by (simp add: dm_def)
  from popOffer_valid [OF k] obtain d'' where p: "popOffer (length ys) dm = Some d''"
    and l: "length (offers d'') + 1 = length (offers dm)" by blast
  have keep: "offers d' = map (scanned d t) ys @ matched t m # zs \<and> raw = Offer m"
    if "Cpu (matched t m) \<noteq> 0 \<and> Mem (matched t m) \<noteq> 0"
    using Assign_found [OF o n f] that r a by simp
  have pop: "popOffer (length ys) dm = Some d' \<and> length (offers d') + 1 = length (offers d) \<and> raw = Offer m"
    if "Cpu (matched t m) = 0 \<or> Mem (matched t m) = 0"
  proof -
    from that r have "\<not> retained d t (matched t m)" by auto
    with Assign_found [OF o n f] have "Assign d t = pop_result (length ys) (Offer m) dm"
      by (simp add: dm_def)
    with p a have "raw = Offer m" "d' = d''" by (simp_all add: pop_result_def)
    with p l show ?thesis by (simp add: dm_def o)
  qed
  have "raw = Offer m" using keep pop by blast
  with o c e c1 keep pop
  show "\<exists>ys m zs. offers d = ys @ m # zs \<and> raw = Offer m
        \<and> Cpu (matched t m) = debited (Cpu m) (demands ''cpus'' (TaskResources t))
        \<and> Mem (matched t m) = debited (Mem m) (demands ''mem'' (TaskResources t))
        \<and> (\<forall>c. demands ''cpus'' (TaskResources t) = [c] \<longrightarrow> Cpu (matched t m) = Cpu m - c)
        \<and> (Cpu (matched t m) \<noteq> 0 \<and> Mem (matched t m) \<noteq> 0 \<longrightarrow>
             offers d' = map (scanned d t) ys @ matched t m # zs)
        \<and> (Cpu (matched t m) = 0 \<or> Mem (matched t m) = 0 \<longrightarrow>
             popOffer (length ys) (d\<lparr>offers := map (scanned d t) ys @ matched t m # zs\<rparr>) = Some d'
             \<and> length (offers d') + 1 = length (offers d))"
    unfolding dm_def by blast
next
  assume o: "offers d2 = ys2 @ m2 # zs2" and n: "\<forall>y\<in>set ys2. \<not> fits d2 t2 y"
    and f: "fits d2 t2 m2"
  define dm where "dm = d2\<lparr>offers := map (scanned d2 t2) ys2 @ matched t2 m2 # zs2\<rparr>"
  have k: "length ys2 < length (offers dm)" by (simp add: dm_def)
  from popOffer_valid [OF k] obtain d'' where p: "popOffer (length ys2) dm = Some d''" by blast
  with Assign_found [OF o n f] show "fst (Assign d2 t2) = Inr (Offer m2)"
    by (simp add: pop_result_def dm_def)
qed

theorem Assign_mux_retains_witness:
  "strategy \<lparr>offers = [pooled (raw_offer ''o1'' 4 4096 []) 4 4096 False], filterOn = Map.empty,
             strategy = [''t1'' \<mapsto> ''MUX'']\<rparr>
     (TaskName \<lparr>TaskName = ''t1'', TaskResources = [scalar_res ''cpus'' 1]\<rparr>) = Some ''MUX''
   \<and> EqualFold ''MUX'' ''mux''
   \<and> Assign \<lparr>offers = [pooled (raw_offer ''o1'' 4 4096 []) 4 4096 False], filterOn = Map.empty,
             strategy = [''t1'' \<mapsto> ''MUX'']\<rparr>
        \<lparr>TaskName = ''t1'', TaskResources = [scalar_res ''cpus'' 1]\<rparr> =
       (Inr (raw_offer ''o1'' 4 4096 []),
        \<lparr>offers = [pooled (raw_offer ''o1'' 4 4096 []) 3 4096 True], filterOn = Map.empty,
         strategy = [''t1'' \<mapsto> ''MUX'']\<rparr>)
   \<and> (\<exists>m. [pooled (raw_offer ''o1'' 4 4096 []) 4 4096 False] = [] @ m # []
        \<and> Cpu (matched \<lparr>TaskName = ''t1'', TaskResources = [scalar_res ''cpus'' 1]\<rparr> m) = Cpu m - 1)
   \<and> fits \<lparr>offers = [pooled (raw_offer ''o1'' 4 4096 []) 3 4096 True], filterOn = Map.empty,
            strategy = [''t1'' \<mapsto> ''MUX'']\<rparr>
        \<lparr>TaskName = ''t2'', TaskResources = [scalar_res ''cpus'' 2]\<rparr>
        (pooled (raw_offer ''o1'' 4 4096 []) 3 4096 True)
   \<and> fst (Assign \<lparr>offers = [pooled (raw_offer ''o1'' 4 4096 []) 3 4096 True], filterOn = Map.empty,
            strategy = [''t1'' \<mapsto> ''MUX'']\<rparr>
        \<lparr>TaskName = ''t2'', TaskResources = [scalar_res ''cpus'' 2]\<rparr>) =
       Inr (raw_offer ''o1'' 4 4096 [])"
  (is "?h1 \<and> ?h2 \<and> ?h3 \<and> ?c1 \<and> ?h4 \<and> ?c2")
proof -
  have h1: ?h1 by simp
  have h2: ?h2 by (simp add: EqualFold_def lower_char_def)
  have h3: ?h3
    by (simp add: Assign_def pooled_def scalar_res_def GetScalarValue_def validOffer_def eat_cpus
        resolved_strategy_def EqualFold_def lower_char_def)
  have h4: ?h4
    by (simp add: fits_def pooled_def scalar_res_def GetScalarValue_def validOffer_def eat_cpus)
  have h5: "offers \<lparr>offers = [pooled (raw_offer ''o1'' 4 4096 []) 3 4096 True], filterOn = Map.empty,
            strategy = [''t1'' \<mapsto> ''MUX'']\<rparr> = [] @ pooled (raw_offer ''o1'' 4 4096 []) 3 4096 True # []"
    by simp
  note T = Assign_mux_retains
    [where d = "\<lparr>offers = [pooled (raw_offer ''o1'' 4 4096 []) 4 4096 False], filterOn = Map.empty,
             strategy = [''t1'' \<mapsto> ''MUX'']\<rparr>"
       and t = "\<lparr>TaskName = ''t1'', TaskResources = [scalar_res ''cpus'' 1]\<rparr>"
       and s = "''MUX''" and raw = "raw_offer ''o1'' 4 4096 []"
       and d' = "\<lparr>offers = [pooled (raw_offer ''o1'' 4 4096 []) 3 4096 True], filterOn = Map.empty,
         strategy = [''t1'' \<mapsto> ''MUX'']\<rparr>"
       and ?d2.0 = "\<lparr>offers = [pooled (raw_offer ''o1'' 4 4096 []) 3 4096 True], filterOn = Map.empty,
            strategy = [''t1'' \<mapsto> ''MUX'']\<rparr>"
       and ?t2.0 = "\<lparr>TaskName = ''t2'', TaskResources = [scalar_res ''cpus'' 2]\<rparr>"
       and ?ys2.0 = "[]" and ?zs2.0 = "[]"
       and ?m2.0 = "pooled (raw_offer ''o1'' 4 4096 []) 3 4096 True"]
  from T h1 h2 h3 obtain ys m zs
    where "[pooled (raw_offer ''o1'' 4 4096 []) 4 4096 False] = ys @ m # zs"
      and c: "\<forall>c. demands ''cpus''
                  (TaskResources \<lparr>TaskName = ''t1'', TaskResources = [scalar_res ''cpus'' 1]\<rparr>) = [c] \<longrightarrow>
                Cpu (matched \<lparr>TaskName = ''t1'', TaskResources = [scalar_res ''cpus'' 1]\<rparr> m) = Cpu m - c"
    by auto
  then have "ys = [] \<and> zs = []" by (cases ys) simp_all
  with \<open>_ = ys @ m # zs\<close> c have c1: ?c1
    by (simp add: demands_def scalar_res_def GetScalarValue_def)
  from T h4 h5 have c2: ?c2 by (simp add: pooled_def raw_offer_def)
  from h1 h2 h3 c1 h4 c2 show ?thesis by blast
qed

subsection \<open>The pool never holds a negative amount\<close>

lemma project_nonneg:
  "list_all (\<lambda>r. 0 \<le> GetScalarValue r) rs \<Longrightarrow> 0 \<le> Cpu m \<and> 0 \<le> Mem m \<Longrightarrow>
   0 \<le> Cpu (project rs m) \<and> 0 \<le> Mem (project rs m)"
  by (induction rs arbitrary: m) simp_all

text \<open>
  A record starts with cpu and mem zero, so the intake needs zero to compare at or above
  itself; it does in \<^verbatim>\<open>float64\<close>.
\<close>

lemma mesosOffer_nonneg:
  "(0::'f::{minus,zero,ord}) \<le> 0 \<Longrightarrow> offer_nonneg (offer :: 'f Offer) \<Longrightarrow>
   0 \<le> Cpu (mesosOffer offer) \<and> 0 \<le> Mem (mesosOffer offer)"
  using project_nonneg [of "OfferResources offer"
      "\<lparr>Offer = offer, Cpu = 0, Mem = 0, Disk = None, Accepted = False\<rparr>"]
  by (simp add: offer_nonneg_def mesosOffer_def)

lemma AddOffers_nonneg:
  "(0::'f::{minus,zero,ord}) \<le> 0 \<Longrightarrow> list_all offer_nonneg (batch :: 'f Offer list) \<Longrightarrow>
   pool_nonneg (AddOffers d batch)"
  using mesosOffer_nonneg by (auto simp add: pool_nonneg_def offers_AddOffers list_all_iff)

lemma allocate_refused:
  "\<not> Cpu m - cpu \<ge> 0 \<Longrightarrow> allocateCpuResource cpu m = (False, m)"
  "\<not> Mem m - mem \<ge> 0 \<Longrightarrow> allocateMemResource mem m = (False, m)"
  by (simp_all add: allocateCpuResource_def allocateMemResource_def)

lemma eat_nonneg:
  "0 \<le> Cpu m \<and> 0 \<le> Mem m \<Longrightarrow> 0 \<le> Cpu (snd (eat rs m)) \<and> 0 \<le> Mem (snd (eat rs m))"
proof (induction rs arbitrary: m)
  case Nil
  then show ?case by simp
next
  case (Cons r rs)
  consider (cpu) "ResName r = ''cpus''" | (mem) "ResName r = ''mem''" | (disk) "ResName r = ''disk''"
    | (other) "ResName r \<noteq> ''cpus''" "ResName r \<noteq> ''mem''" "ResName r \<noteq> ''disk''" by blast
  then show ?case
  proof cases
    case cpu
    show ?thesis
      using Cons.prems Cons.IH [of "m\<lparr>Cpu := Cpu m - GetScalarValue r\<rparr>"] cpu
      by (simp add: eat_cpus)
  next
    case mem
    show ?thesis
      using Cons.prems Cons.IH [of "m\<lparr>Mem := Mem m - GetScalarValue r\<rparr>"] mem
      by (simp add: eat_mem)
  next
    case disk
    show ?thesis
      using Cons.prems Cons.IH [of "case ResDisk r of None \<Rightarrow> m | Some x \<Rightarrow> m\<lparr>Disk := Some x\<rparr>"] disk
      by (simp add: eat_disk split: option.splits)
  next
    case other
    with Cons show ?thesis by (simp add: eat_other)
  qed
qed

lemma AddFilter_offers: "offers (snd (AddFilter d t fs)) = offers d"
proof (induction fs arbitrary: d)
  case Nil
  then show ?case by simp
next
  case (Cons f fs)
  then show ?case
    by (cases "Value f") (auto simp: Let_def split: option.split)
qed

lemma Assign_nonneg:
  assumes "pool_nonneg d"
  shows "pool_nonneg (snd (Assign d t))"
proof -
  let ?nn = "\<lambda>m. 0 \<le> Cpu m \<and> 0 \<le> Mem m"
  have sc: "?nn (scanned d t m)" if "?nn m" for m
    using that eat_nonneg [of m "TaskResources t"] by (simp add: scanned_def)
  have ma: "?nn (matched t m)" if "?nn m" for m
    using that eat_nonneg [of m "TaskResources t"] by (simp add: matched_def)
  from assms have all: "\<forall>m\<in>set (offers d). ?nn m"
    by (simp add: pool_nonneg_def list_all_iff)
  show ?thesis
  proof (cases "\<exists>m\<in>set (offers d). fits d t m")
    case False
    then have "offers (snd (Assign d t)) = map (scanned d t) (offers d)"
      by (simp add: Assign_not_found)
    with all sc show ?thesis by (simp add: pool_nonneg_def list_all_iff)
  next
    case True
    then obtain ys m zs where o: "offers d = ys @ m # zs"
      and n: "\<forall>y\<in>set ys. \<not> fits d t y" and f: "fits d t m"
      using first_fit_split by blast
    define dm where "dm = d\<lparr>offers := map (scanned d t) ys @ matched t m # zs\<rparr>"
    have dmnn: "\<forall>x\<in>set (offers dm). ?nn x"
      using all sc ma by (auto simp: dm_def o)
    have k: "length ys < length (offers dm)" by (simp add: dm_def)
    from popOffer_valid [OF k] obtain d'' where p: "popOffer (length ys) dm = Some d''"
      and sub: "set (offers d'') \<subseteq> set (offers dm)" by blast
    from Assign_found [OF o n f] p have "snd (Assign d t) = dm \<or> snd (Assign d t) = d''"
      by (simp add: dm_def pop_result_def)
    with dmnn sub show ?thesis by (auto simp: pool_nonneg_def list_all_iff)
  qed
qed

text \<open>
  C2. Every operation that changes the state keeps the cpu and the mem of every offer of
  the pool at or above zero: \<^verbatim>\<open>AddOffers\<close> when the scalar values of the raw offers
  are not negative, and \<^verbatim>\<open>Assign\<close>, \<^verbatim>\<open>AddFilter\<close> and \<^verbatim>\<open>ClearFilters\<close>
  from a pool that has the property (\<^verbatim>\<open>Offers\<close> returns a list and changes nothing).
  A subtraction whose result would be negative is not performed: the allocation reports
  failure and leaves the record as it was. The theorem is stated for real quantities; the
  lemmas it rests on (\<open>AddOffers_nonneg\<close>, \<open>Assign_nonneg\<close>, \<open>allocate_refused\<close>) use
  no law of arithmetic and hold for any quantity type.
\<close>

theorem pool_nonneg_preserved:
  "(list_all offer_nonneg batch \<longrightarrow> pool_nonneg (AddOffers (d :: real DefaultResourceManager) batch))
   \<and> (pool_nonneg d \<longrightarrow>
        pool_nonneg (snd (Assign d t)) \<and> pool_nonneg (snd (AddFilter d t fs))
        \<and> pool_nonneg (ClearFilters d t))
   \<and> (Cpu m - cpu < 0 \<longrightarrow> allocateCpuResource cpu (m :: real MesosOfferResources) = (False, m))
   \<and> (Mem m - mem < 0 \<longrightarrow> allocateMemResource mem m = (False, m))"
proof (intro conjI impI)
  assume "list_all offer_nonneg batch"
  then show "pool_nonneg (AddOffers d batch)"
    by (intro AddOffers_nonneg) simp_all
next
  assume "pool_nonneg d"
  then show "pool_nonneg (snd (Assign d t))" by (rule Assign_nonneg)
next
  assume "pool_nonneg d"
  then show "pool_nonneg (snd (AddFilter d t fs))" by (simp add: pool_nonneg_def AddFilter_offers)
next
  assume "pool_nonneg d"
  then show "pool_nonneg (ClearFilters d t)" by (simp add: pool_nonneg_def ClearFilters_def)
next
  assume "Cpu m - cpu < 0"
  then show "allocateCpuResource cpu m = (False, m)" by (simp add: allocateCpuResource_def)
next
  assume "Mem m - mem < 0"
  then show "allocateMemResource mem m = (False, m)" by (simp add: allocateMemResource_def)
qed

theorem pool_nonneg_preserved_witness:
  "list_all offer_nonneg [raw_offer ''o1'' 4 4096 []]
   \<and> pool_nonneg (AddOffers NewDefaultResourceManager [raw_offer ''o1'' 4 4096 []])
   \<and> pool_nonneg (snd (Assign (AddOffers NewDefaultResourceManager [raw_offer ''o1'' 4 4096 []])
        \<lparr>TaskName = ''t1'', TaskResources = [scalar_res ''cpus'' 1, scalar_res ''mem'' 8192]\<rparr>))
   \<and> pool_nonneg (snd (AddFilter (AddOffers NewDefaultResourceManager [raw_offer ''o1'' 4 4096 []])
        \<lparr>TaskName = ''t1'', TaskResources = [scalar_res ''cpus'' 1, scalar_res ''mem'' 8192]\<rparr>
        [\<lparr>Type = ''text'', Value = [''ssd'']\<rparr>]))
   \<and> pool_nonneg (ClearFilters (AddOffers NewDefaultResourceManager [raw_offer ''o1'' 4 4096 []])
        \<lparr>TaskName = ''t1'', TaskResources = [scalar_res ''cpus'' 1, scalar_res ''mem'' 8192]\<rparr>)
   \<and> Cpu (pooled (raw_offer ''o1'' 4 4096 []) 4 4096 False) - 5 < 0
   \<and> allocateCpuResource 5 (pooled (raw_offer ''o1'' 4 4096 []) 4 4096 False) =
       (False, pooled (raw_offer ''o1'' 4 4096 []) 4 4096 False)
   \<and> Mem (pooled (raw_offer ''o1'' 4 4096 []) 4 4096 False) - 8192 < 0
   \<and> allocateMemResource 8192 (pooled (raw_offer ''o1'' 4 4096 []) 4 4096 False) =
       (False, pooled (raw_offer ''o1'' 4 4096 []) 4 4096 False)"
proof -
  have h1: "list_all offer_nonneg [raw_offer ''o1'' 4 4096 []]"
    by (simp add: offer_nonneg_def raw_offer_def scalar_res_def GetScalarValue_def)
  have h3: "Cpu (pooled (raw_offer ''o1'' 4 4096 []) 4 4096 False) - 5 < 0"
    by (simp add: pooled_def)
  have h4: "Mem (pooled (raw_offer ''o1'' 4 4096 []) 4 4096 False) - 8192 < 0"
    by (simp add: pooled_def)
  note T = pool_nonneg_preserved
    [where batch = "[raw_offer ''o1'' 4 4096 []]" and m = "pooled (raw_offer ''o1'' 4 4096 []) 4 4096 False"
       and cpu = 5 and mem = 8192]
  from T [of NewDefaultResourceManager] h1
  have h2: "pool_nonneg (AddOffers NewDefaultResourceManager [raw_offer ''o1'' 4 4096 []])"
    by blast
  from T [of "AddOffers NewDefaultResourceManager [raw_offer ''o1'' 4 4096 []]"
      "\<lparr>TaskName = ''t1'', TaskResources = [scalar_res ''cpus'' 1, scalar_res ''mem'' 8192]\<rparr>"
      "[\<lparr>Type = ''text'', Value = [''ssd'']\<rparr>]"] h1 h2 h3 h4
  show ?thesis by blast
qed

text \<open>
  Hence the property holds in every reachable state.
\<close>

lemma reachable_pool_nonneg:
  assumes "(0::'f::{minus,zero,ord}) \<le> 0" and "reachable (d :: 'f DefaultResourceManager)"
  shows "pool_nonneg d"
  using assms(2)
proof (induction rule: reachable.induct)
  case init
  then show ?case by (simp add: pool_nonneg_def NewDefaultResourceManager_def)
next
  case (add_offers d batch)
  then show ?case by (intro AddOffers_nonneg assms(1))
next
  case (assign d t)
  then show ?case by (simp add: Assign_nonneg)
next
  case (add_filter d t fs)
  then show ?case by (simp add: pool_nonneg_def AddFilter_offers)
next
  case (clear_filters d t)
  then show ?case by (simp add: pool_nonneg_def ClearFilters_def)
qed

subsection \<open>Offers that the scan skips\<close>

text \<open>
  C1. An offer that passes the filters and has enough cpu but not enough mem is skipped
  with its cpu already debited. With offers of (4 cpus, 1024 mem) and (4 cpus, 4096 mem) and
  a task asking for 1 cpu and 2048 mem, \<^verbatim>\<open>Assign\<close> returns the second offer and leaves
  the first, which it did not return, in the pool with 3 cpus. With the first offer alone
  \<^verbatim>\<open>Assign\<close> fails, and the offer is left with 3 cpus as well.
\<close>

theorem Assign_skipped_offer_half_debited:
  "Assign (AddOffers NewDefaultResourceManager [raw_offer ''o1'' 4 1024 [], raw_offer ''o2'' 4 4096 []])
     \<lparr>TaskName = ''t1'', TaskResources = [scalar_res ''cpus'' 1, scalar_res ''mem'' 2048]\<rparr> =
     (Inr (raw_offer ''o2'' 4 4096 []),
      \<lparr>offers = [pooled (raw_offer ''o1'' 4 1024 []) 3 1024 False], filterOn = Map.empty,
       strategy = Map.empty\<rparr>)
   \<and> Assign (AddOffers NewDefaultResourceManager [raw_offer ''o1'' 4 1024 []])
     \<lparr>TaskName = ''t1'', TaskResources = [scalar_res ''cpus'' 1, scalar_res ''mem'' 2048]\<rparr> =
     (Inl (Err ''Cannot find a suitable offer for task t1''),
      \<lparr>offers = [pooled (raw_offer ''o1'' 4 1024 []) 3 1024 False], filterOn = Map.empty,
       strategy = Map.empty\<rparr>)
   \<and> offers (AddOffers NewDefaultResourceManager [raw_offer ''o1'' 4 1024 []]) =
       [pooled (raw_offer ''o1'' 4 1024 []) 4 1024 False]"
  by (simp add: Assign_def AddOffers_def clearOffers_def NewDefaultResourceManager_def mesosOffer_def
      raw_offer_def pooled_def scalar_res_def GetScalarValue_def validOffer_def eat_cpus eat_mem
      resolved_strategy_def EqualFold_def pop_result_def popOffer_def not_found_def)

subsection \<open>What filter evaluation compares\<close>

text \<open>
  C4. Filter evaluation yields true exactly when some filter of the list has a first
  term that equals, without regard to case, the text of some attribute of type text of the
  offer; for one filter, exactly when its first term does. The terms after the first are
  never compared: the outcome on an attribute is that of the first term alone, and it is
  false as soon as the first term differs from the attribute's text. This is the
  evaluation \<^verbatim>\<open>Assign\<close> applies when the task has filters registered.
\<close>

theorem filter_text_first_term:
  "filter_offer fs offer =
     (\<exists>f\<in>set fs. \<exists>a\<in>set (OfferAttributes offer).
        AttrType a = TEXT \<and> Value f \<noteq> [] \<and> ToLower (hd (Value f)) = ToLower (GetTextValue a))
   \<and> filter_offer [f] offer =
     (Value f \<noteq> [] \<and>
      (\<exists>a\<in>set (OfferAttributes offer).
         AttrType a = TEXT \<and> ToLower (hd (Value f)) = ToLower (GetTextValue a)))
   \<and> filterOnAttrText (term # rest) a = filterOnAttrText [term] a
   \<and> (ToLower term \<noteq> ToLower (GetTextValue a) \<longrightarrow> filterOnAttrText (term # rest) a = False)
   \<and> (filterOn d (TaskName t) = Some fs \<longrightarrow> validOffer d t offer = filter_offer fs offer)"
proof (intro conjI impI)
  show "filter_offer fs offer =
     (\<exists>f\<in>set fs. \<exists>a\<in>set (OfferAttributes offer).
        AttrType a = TEXT \<and> Value f \<noteq> [] \<and> ToLower (hd (Value f)) = ToLower (GetTextValue a))"
    unfolding filter_offer_iff filter_attrs_iff filterOnAttrText_iff by blast
  show "filter_offer [f] offer =
     (Value f \<noteq> [] \<and>
      (\<exists>a\<in>set (OfferAttributes offer).
         AttrType a = TEXT \<and> ToLower (hd (Value f)) = ToLower (GetTextValue a)))"
    unfolding filter_offer_iff filter_attrs_iff filterOnAttrText_iff by auto
  show "filterOnAttrText (term # rest) a = filterOnAttrText [term] a" by simp
  show "filterOnAttrText (term # rest) a = False" if "ToLower term \<noteq> ToLower (GetTextValue a)"
    using that by simp
  show "validOffer d t offer = filter_offer fs offer" if "filterOn d (TaskName t) = Some fs"
    using that by (simp add: validOffer_def)
qed

theorem filter_text_first_term_witness:
  "filter_offer [\<lparr>Type = ''text'', Value = [''GPU'', ''ssd'']\<rparr>]
     (raw_offer ''o1'' 4 4096 [scalar_attr 1, text_attr ''gpu''])
   \<and> \<not> filter_offer [\<lparr>Type = ''text'', Value = [''GPU'', ''ssd'']\<rparr>]
     (raw_offer ''o2'' 4 4096 [text_attr ''ssd''])
   \<and> ToLower ''GPU'' \<noteq> ToLower (GetTextValue (text_attr ''ssd''))
   \<and> filterOnAttrText (''GPU'' # [''ssd'']) (text_attr ''ssd'') = False
   \<and> filterOn \<lparr>offers = ([] :: real MesosOfferResources list),
               filterOn = [''t1'' \<mapsto> [\<lparr>Type = ''text'', Value = [''GPU'', ''ssd'']\<rparr>]],
               strategy = Map.empty\<rparr>
         (TaskName (\<lparr>TaskName = ''t1'', TaskResources = []\<rparr> :: real TaskInfo)) =
       Some [\<lparr>Type = ''text'', Value = [''GPU'', ''ssd'']\<rparr>]
   \<and> \<not> validOffer \<lparr>offers = [], filterOn = [''t1'' \<mapsto> [\<lparr>Type = ''text'', Value = [''GPU'', ''ssd'']\<rparr>]],
               strategy = Map.empty\<rparr> \<lparr>TaskName = ''t1'', TaskResources = []\<rparr>
         (raw_offer ''o2'' 4 4096 [text_attr ''ssd''])"
  (is "?c1 \<and> ?c2 \<and> ?h3 \<and> ?c3 \<and> ?h4 \<and> ?c4")
proof -
  have h3: ?h3 by (simp add: text_attr_def GetTextValue_def lower_char_def)
  have h4: ?h4 by simp
  have c1: ?c1
    using filter_text_first_term [of "[\<lparr>Type = ''text'', Value = [''GPU'', ''ssd'']\<rparr>]"
        "raw_offer ''o1'' 4 4096 [scalar_attr 1, text_attr ''gpu'']"]
    by (simp add: raw_offer_def text_attr_def scalar_attr_def GetTextValue_def lower_char_def)
  note T = filter_text_first_term [of "[\<lparr>Type = ''text'', Value = [''GPU'', ''ssd'']\<rparr>]"
        "raw_offer ''o2'' 4 4096 [text_attr ''ssd'']" "\<lparr>Type = ''text'', Value = [''GPU'', ''ssd'']\<rparr>"
        "''GPU''" "[''ssd'']" "text_attr ''ssd''"
        "\<lparr>offers = [], filterOn = [''t1'' \<mapsto> [\<lparr>Type = ''text'', Value = [''GPU'', ''ssd'']\<rparr>]],
               strategy = Map.empty\<rparr>" "\<lparr>TaskName = ''t1'', TaskResources = []\<rparr>"]
  have c2: ?c2
    using T by (simp add: raw_offer_def text_attr_def GetTextValue_def lower_char_def)
  from T h3 have c3: ?c3 by blast
  from T h4 c2 have c4: ?c4 by blast
  from c1 c2 h3 c3 h4 c4 show ?thesis by blast
qed

text \<open>
  C3, as the code has it. Filter evaluation never reads the kind of a filter: a filter
  registered as scalar, set or ranges is evaluated as a text filter with the same values
  would be, and so it does constrain admission. Only the attributes of type text of the
  offer are compared: attributes of type scalar, set or ranges never admit an offer.
\<close>

theorem filter_kind_never_read:
  "validOffer (d\<lparr>filterOn := (filterOn d)(TaskName t \<mapsto> map (\<lambda>f. f\<lparr>Type := kind f\<rparr>) fs)\<rparr>) t offer =
     validOffer (d\<lparr>filterOn := (filterOn d)(TaskName t \<mapsto> fs)\<rparr>) t offer
   \<and> filter_offer (map (\<lambda>f. f\<lparr>Type := kind f\<rparr>) fs) offer = filter_offer fs offer
   \<and> filter_offer fs offer =
       filter_offer fs
         (offer\<lparr>OfferAttributes := filter (\<lambda>a. AttrType a = TEXT) (OfferAttributes offer)\<rparr>)"
proof -
  have k: "filter_offer (map (\<lambda>f. f\<lparr>Type := kind f\<rparr>) fs) offer = filter_offer fs offer"
    unfolding filter_offer_iff filter_attrs_iff by simp
  have a: "filter_offer fs offer =
       filter_offer fs
         (offer\<lparr>OfferAttributes := filter (\<lambda>a. AttrType a = TEXT) (OfferAttributes offer)\<rparr>)"
    unfolding filter_offer_iff filter_attrs_iff by auto
  from k a show ?thesis by (simp add: validOffer_def)
qed

text \<open>
  C3 as stated fails: an offer with a scalar attribute 4 is admitted for a task without
  filters, and rejected once the filter of kind scalar with the term 4 is registered for
  the task, so that \<^verbatim>\<open>Assign\<close> fails where it succeeded.
\<close>

theorem scalar_filter_changes_admission:
  "validOffer (AddOffers NewDefaultResourceManager [raw_offer ''o1'' 4 4096 [scalar_attr 4]])
     \<lparr>TaskName = ''t1'', TaskResources = [scalar_res ''cpus'' 1]\<rparr>
     (raw_offer ''o1'' 4 4096 [scalar_attr 4])
   \<and> \<not> validOffer
       (snd (AddFilter (AddOffers NewDefaultResourceManager [raw_offer ''o1'' 4 4096 [scalar_attr 4]])
          \<lparr>TaskName = ''t1'', TaskResources = [scalar_res ''cpus'' 1]\<rparr>
          [\<lparr>Type = ''scalar'', Value = [''4'']\<rparr>]))
       \<lparr>TaskName = ''t1'', TaskResources = [scalar_res ''cpus'' 1]\<rparr>
       (raw_offer ''o1'' 4 4096 [scalar_attr 4])
   \<and> fst (Assign (AddOffers NewDefaultResourceManager [raw_offer ''o1'' 4 4096 [scalar_attr 4]])
       \<lparr>TaskName = ''t1'', TaskResources = [scalar_res ''cpus'' 1]\<rparr>) =
       Inr (raw_offer ''o1'' 4 4096 [scalar_attr 4])
   \<and> fst (Assign
       (snd (AddFilter (AddOffers NewDefaultResourceManager [raw_offer ''o1'' 4 4096 [scalar_attr 4]])
          \<lparr>TaskName = ''t1'', TaskResources = [scalar_res ''cpus'' 1]\<rparr>
          [\<lparr>Type = ''scalar'', Value = [''4'']\<rparr>]))
       \<lparr>TaskName = ''t1'', TaskResources = [scalar_res ''cpus'' 1]\<rparr>) =
       Inl (Err ''Cannot find a suitable offer for task t1'')"
  by (simp add: Assign_def AddOffers_def clearOffers_def NewDefaultResourceManager_def mesosOffer_def
      raw_offer_def scalar_attr_def scalar_res_def GetScalarValue_def validOffer_def eat_cpus
      resolved_strategy_def EqualFold_def pop_result_def popOffer_def not_found_def lower_char_def
      Let_def)

subsection \<open>Disk demands\<close>

text \<open>
  C5, as the code has it. A disk demand that carries a disk descriptor writes this
  descriptor, the task's own, into the disk field of the offer's record, replacing the
  offer's; a disk demand without a descriptor leaves the record as it is. Either way the
  scan goes on with the task's next demand: a disk demand never makes the offer skipped,
  and it subtracts nothing from cpu or mem.
\<close>

theorem disk_demand_overwrites:
  "allocateDiskResource r m =
     (ResDisk r \<noteq> None, case ResDisk r of None \<Rightarrow> m | Some x \<Rightarrow> m\<lparr>Disk := Some x\<rparr>)
   \<and> (ResName r = ''disk'' \<longrightarrow>
        eat (r # rs) m = eat rs (case ResDisk r of None \<Rightarrow> m | Some x \<Rightarrow> m\<lparr>Disk := Some x\<rparr>))
   \<and> (list_all (\<lambda>r. ResName r = ''disk'') ds \<longrightarrow>
        fst (eat ds m) \<and> Cpu (snd (eat ds m)) = Cpu m \<and> Mem (snd (eat ds m)) = Mem m)"
proof (intro conjI impI)
  show "allocateDiskResource r m =
     (ResDisk r \<noteq> None, case ResDisk r of None \<Rightarrow> m | Some x \<Rightarrow> m\<lparr>Disk := Some x\<rparr>)"
    by (auto simp: allocateDiskResource_def)
  show "eat (r # rs) m = eat rs (case ResDisk r of None \<Rightarrow> m | Some x \<Rightarrow> m\<lparr>Disk := Some x\<rparr>)"
    if "ResName r = ''disk''" using that by (rule eat_disk)
  have all: "fst (eat ds m) \<and> Cpu (snd (eat ds m)) = Cpu m \<and> Mem (snd (eat ds m)) = Mem m"
    if "list_all (\<lambda>r. ResName r = ''disk'') ds" using that
  proof (induction ds arbitrary: m)
    case Nil
    then show ?case by simp
  next
    case (Cons r ds)
    then show ?case by (simp add: eat_disk split: option.split)
  qed
  assume "list_all (\<lambda>r. ResName r = ''disk'') ds"
  from all [OF this] show "fst (eat ds m)" "Cpu (snd (eat ds m)) = Cpu m" "Mem (snd (eat ds m)) = Mem m"
    by simp_all
qed

theorem disk_demand_overwrites_witness:
  "ResName (disk_res ''task-disk'') = ''disk''
   \<and> eat (disk_res ''task-disk'' # []) (pooled (raw_offer ''o1'' 4 4096 []) 4 4096 False) =
       (True, (pooled (raw_offer ''o1'' 4 4096 []) 4 4096 False)\<lparr>Disk := Some ''task-disk''\<rparr>)
   \<and> list_all (\<lambda>r. ResName r = ''disk'')
        [disk_res ''task-disk'', \<lparr>ResName = ''disk'', ResScalar = Some 10, ResDisk = None\<rparr>]
   \<and> fst (eat [disk_res ''task-disk'', \<lparr>ResName = ''disk'', ResScalar = Some 10, ResDisk = None\<rparr>]
        (pooled (raw_offer ''o1'' 4 4096 []) 0 0 False))"
  (is "?h1 \<and> ?c1 \<and> ?h2 \<and> ?c2")
proof -
  have h1: ?h1 by (simp add: disk_res_def)
  have h2: ?h2 by (simp add: disk_res_def)
  note T = disk_demand_overwrites [of "disk_res ''task-disk''"
      "pooled (raw_offer ''o1'' 4 4096 []) 4 4096 False" "[]"
      "[disk_res ''task-disk'', \<lparr>ResName = ''disk'', ResScalar = Some 10, ResDisk = None\<rparr>]"]
  from T h1 have c1: ?c1 by (simp add: disk_res_def)
  from disk_demand_overwrites [of "disk_res ''task-disk''"
      "pooled (raw_offer ''o1'' 4 4096 []) 0 0 False" "[]"
      "[disk_res ''task-disk'', \<lparr>ResName = ''disk'', ResScalar = Some 10, ResDisk = None\<rparr>]"] h2
  have c2: ?c2 by blast
  from h1 c1 h2 c2 show ?thesis by blast
qed

text \<open>
  C5 as stated fails: the offer advertises the disk \<^verbatim>\<open>offer-disk\<close>, the task asks
  for the disk \<^verbatim>\<open>task-disk\<close>, and after the assignment the matched record holds
  \<^verbatim>\<open>task-disk\<close>, not the offer's descriptor.
\<close>

theorem disk_demand_copied_from_task:
  "Assign
     (snd (AddFilter
        (AddOffers NewDefaultResourceManager
           [\<lparr>OfferId = ''o1'',
             OfferResources = [scalar_res ''cpus'' 4, scalar_res ''mem'' 4096, disk_res ''offer-disk''],
             OfferAttributes = []\<rparr>])
        \<lparr>TaskName = ''t1'', TaskResources = [disk_res ''task-disk'']\<rparr>
        [\<lparr>Type = ''strategy'', Value = [''mux'']\<rparr>]))
     \<lparr>TaskName = ''t1'', TaskResources = [disk_res ''task-disk'']\<rparr> =
     (Inr \<lparr>OfferId = ''o1'',
           OfferResources = [scalar_res ''cpus'' 4, scalar_res ''mem'' 4096, disk_res ''offer-disk''],
           OfferAttributes = []\<rparr>,
      \<lparr>offers =
         [\<lparr>Offer = \<lparr>OfferId = ''o1'',
               OfferResources = [scalar_res ''cpus'' 4, scalar_res ''mem'' 4096, disk_res ''offer-disk''],
               OfferAttributes = []\<rparr>,
           Cpu = 4, Mem = 4096, Disk = Some ''task-disk'', Accepted = True\<rparr>],
       filterOn = Map.empty, strategy = [''t1'' \<mapsto> ''mux'']\<rparr>)
   \<and> map Disk (offers (AddOffers NewDefaultResourceManager
           [\<lparr>OfferId = ''o1'',
             OfferResources = [scalar_res ''cpus'' 4, scalar_res ''mem'' 4096, disk_res ''offer-disk''],
             OfferAttributes = []\<rparr>])) = [Some ''offer-disk'']"
  by (simp add: Assign_def AddOffers_def clearOffers_def NewDefaultResourceManager_def mesosOffer_def
      disk_res_def scalar_res_def GetScalarValue_def validOffer_def eat_disk
      resolved_strategy_def EqualFold_def lower_char_def Let_def)

end
